theory Spec2Isabelle
  imports Main "HOL-Library.Multiset"
begin

unbundle bit_operations_syntax

section \<open>Literals and variables\<close>

text \<open>
  The API of \<^verbatim>\<open>Monosat.cpp\<close> exchanges variables and literals with its callers as C
  \<^verbatim>\<open>int\<close>s. The literal type itself (\<^verbatim>\<open>struct Lit\<close> with its helpers \<^verbatim>\<open>mkLit\<close>,
  \<^verbatim>\<open>toInt\<close>, \<^verbatim>\<open>toLit\<close>, \<^verbatim>\<open>sign\<close>, \<^verbatim>\<open>var\<close> and \<^verbatim>\<open>~\<close>) is declared in a header that is
  not among the sources, so it is modelled from the specification's data model: a
  variable is a dense non-negative integer, a literal is the integer \<open>2 * var + sign\<close>.
  Integers are the integers of HOL. C's \<^verbatim>\<open>int\<close> has 32 bits: where the API computes
  in \<^verbatim>\<open>int\<close> a value that can leave that range for arguments inside it (the literal
  that \<^verbatim>\<open>varToLit\<close> returns, the bound \<open>steps - 1\<close> of a distance predicate), the model
  takes the value that two's complement arithmetic wraps to, which is what the compiled
  code computes.
\<close>

type_synonym Var = int

text \<open>Modelled from the spec: \<^verbatim>\<open>struct Lit\<close>, a wrapper around one integer; \<^verbatim>\<open>toLit\<close>
  wraps an integer and \<^verbatim>\<open>toInt\<close> reads it back.\<close>

datatype Lit = toLit (toInt: int)

text \<open>Modelled from the spec: \<^verbatim>\<open>var_Undef\<close>, the variable that is none.\<close>

definition var_Undef :: Var where
  "var_Undef = -1"

text \<open>Modelled from the spec: \<^verbatim>\<open>mkLit\<close>, "a literal encodes (variable, sign) as
  2 * var + sign".\<close>

definition mkLit :: "Var \<Rightarrow> bool \<Rightarrow> Lit" where
  "mkLit v s = toLit (v + v + (if s then 1 else 0))"

text \<open>Modelled from the spec: \<^verbatim>\<open>sign\<close>, the low bit of the encoding.\<close>

definition sign :: "Lit \<Rightarrow> bool" where
  "sign p = (toInt p AND 1 \<noteq> 0)"

text \<open>Modelled from the spec: \<^verbatim>\<open>var\<close>, the encoding shifted right by one bit.\<close>

definition var :: "Lit \<Rightarrow> Var" where
  "var p = drop_bit 1 (toInt p)"

text \<open>Modelled from the spec: \<^verbatim>\<open>operator ~\<close>, "negation flips the low bit".\<close>

definition neg :: "Lit \<Rightarrow> Lit" where
  "neg p = toLit (toInt p XOR 1)"

text \<open>The value of an integer as a C \<^verbatim>\<open>int\<close>: unchanged from \<open>- 2^31\<close> to \<open>2^31 - 1\<close>,
  wrapped around into that range otherwise.\<close>

definition int32 :: "int \<Rightarrow> int" where
  "int32 i = signed_take_bit 31 i"

text \<open>\<^verbatim>\<open>varToLit\<close> (Monosat.cpp, line 391). The function takes an \<^verbatim>\<open>int\<close> and returns
  an \<^verbatim>\<open>int\<close>: the encoding of the literal is computed in 32 bits.\<close>

definition varToLit :: "int \<Rightarrow> bool \<Rightarrow> int" where
  "varToLit variable negated = int32 (toInt (mkLit variable negated))"

text \<open>\<^verbatim>\<open>dimacs(int externalLit)\<close> (Monosat.cpp, line 414).\<close>

definition dimacs :: "int \<Rightarrow> int" where
  "dimacs externalLit =
     (let l = toLit externalLit
      in if sign l then - (var l + 1) else var l + 1)"


section \<open>Errors and formatted output\<close>

text \<open>The API reports failure by throwing: \<^verbatim>\<open>api_errorf\<close> throws
  \<^verbatim>\<open>std::runtime_error\<close>, the name checks throw \<^verbatim>\<open>std::invalid_argument\<close>. Each carries its
  message.\<close>

datatype error = runtime_error string | invalid_argument string

text \<open>The arguments of a variadic call: an \<^verbatim>\<open>int\<close>, an \<^verbatim>\<open>int64_t\<close> or a C string.\<close>

datatype arg = ArgInt int | ArgLong int | ArgStr string

text \<open>The pieces of a \<^verbatim>\<open>printf\<close> format: a character printed as it is, or one of the
  conversions the API uses (\<^verbatim>\<open>%d\<close>, \<^verbatim>\<open>%ld\<close>, \<^verbatim>\<open>%s\<close>); any other conversion is
  \<open>ConvOther\<close>.\<close>

datatype directive = Text char | ConvD | ConvLD | ConvS | ConvOther

text \<open>The macro \<^verbatim>\<open>PRId64\<close> of \<^verbatim>\<open><cinttypes>\<close>: the length modifier and conversion of an
  \<^verbatim>\<open>int64_t\<close> where \<^verbatim>\<open>long\<close> has 64 bits.\<close>

definition PRId64 :: string where
  "PRId64 = ''ld''"

fun parse_format :: "string \<Rightarrow> directive list" where
  "parse_format [] = []"
| "parse_format [c] = (if c = CHR ''%'' then [ConvOther] else [Text c])"
| "parse_format (c # d # fmt) =
     (if c = CHR ''%'' then
        (if d = CHR ''d'' then ConvD # parse_format fmt
         else if d = CHR ''s'' then ConvS # parse_format fmt
         else if d = CHR ''l'' then
           (case fmt of
              [] \<Rightarrow> [ConvOther]
            | e # fmt' \<Rightarrow>
                if e = CHR ''d'' then ConvLD # parse_format fmt'
                else ConvOther # parse_format fmt')
         else ConvOther # parse_format fmt)
      else Text c # parse_format (d # fmt))"

definition digit_char :: "nat \<Rightarrow> char" where
  "digit_char n = ''0123456789'' ! (n mod 10)"

function dec_nat :: "nat \<Rightarrow> string" where
  "dec_nat n = (if n < 10 then [digit_char n] else dec_nat (n div 10) @ [digit_char n])"
  by pat_completeness auto
termination
  by (relation "measure (\<lambda>n. n)") auto

definition dec_int :: "int \<Rightarrow> string" where
  "dec_int i = (if i < 0 then CHR ''-'' # dec_nat (nat (- i)) else dec_nat (nat i))"

text \<open>What a format prints for the arguments it is given. A conversion that finds no
  argument, or an argument of another type than it converts, has no defined output in
  C: the result is \<open>None\<close>. Arguments left over are ignored, as in C.\<close>

fun render :: "directive list \<Rightarrow> arg list \<Rightarrow> string option" where
  "render [] args = Some []"
| "render (Text c # ds) args = map_option ((#) c) (render ds args)"
| "render (ConvD # ds) (ArgInt n # args) = map_option ((@) (dec_int n)) (render ds args)"
| "render (ConvLD # ds) (ArgLong n # args) = map_option ((@) (dec_int n)) (render ds args)"
| "render (ConvS # ds) (ArgStr s # args) = map_option ((@) s) (render ds args)"
| "render (d # ds) args = None"

definition vfprintf :: "string \<Rightarrow> arg list \<Rightarrow> string option" where
  "vfprintf fmt args = render (parse_format fmt) args"

text \<open>\<^verbatim>\<open>api_errorf\<close> (Monosat.cpp, line 60): the message is formatted into a buffer of
  1000 bytes and thrown as a \<^verbatim>\<open>std::runtime_error\<close>. (It is also printed on the standard
  error stream, which is not modelled.)\<close>

definition api_errorf :: "string \<Rightarrow> arg list \<Rightarrow> error" where
  "api_errorf fmt args =
     runtime_error (take 999 (case vfprintf fmt args of Some s \<Rightarrow> s | None \<Rightarrow> []))"

section \<open>Algorithm selection\<close>

text \<open>The C library's \<^verbatim>\<open>tolower\<close> in the C locale, on bytes.\<close>

definition tolower :: "char \<Rightarrow> char" where
  "tolower c =
     (let n = (of_char c :: nat) in if 65 \<le> n \<and> n \<le> 90 then char_of (n + 32) else c)"

text \<open>The C library's \<^verbatim>\<open>strcasecmp\<close>: the strings are compared byte by byte after
  \<^verbatim>\<open>tolower\<close>; the result is the difference of the first two bytes that differ, the
  end of a string counting as the byte 0. A C string holds no byte 0.\<close>

fun strcasecmp :: "string \<Rightarrow> string \<Rightarrow> int" where
  "strcasecmp [] [] = 0"
| "strcasecmp [] (b # bs) = - int (of_char (tolower b))"
| "strcasecmp (a # as) [] = int (of_char (tolower a))"
| "strcasecmp (a # as) (b # bs) =
     (if tolower a = tolower b then strcasecmp as bs
      else int (of_char (tolower a)) - int (of_char (tolower b)))"

text \<open>The values of \<^verbatim>\<open>enum class MinCutAlg\<close> that \<^verbatim>\<open>_selectAlgorithms\<close> assigns.\<close>

datatype MinCutAlg =
  ALG_EDKARP_ADJ | ALG_EDMONSKARP | ALG_EDKARP_DYN | ALG_DINITZ | ALG_DINITZ_LINKCUT
| ALG_KOHLI_TORR

text \<open>\<^verbatim>\<open>_selectAlgorithms\<close> (Monosat.cpp, lines 206 to 235), the block that sets
  \<^verbatim>\<open>mincutalg\<close> from the option string \<^verbatim>\<open>opt_maxflow_alg\<close>: the algorithm selected, or the
  error thrown.\<close>

definition selectAlgorithms_mincutalg :: "string \<Rightarrow> error + MinCutAlg" where
  "selectAlgorithms_mincutalg opt_maxflow_alg =
     (if strcasecmp opt_maxflow_alg ''edmondskarp-adj'' = 0 then Inr ALG_EDKARP_ADJ
      else if strcasecmp opt_maxflow_alg ''edmondskarp'' = 0 then Inr ALG_EDMONSKARP
      else if strcasecmp opt_maxflow_alg ''edmondskarp-dynamic'' = 0 then Inr ALG_EDKARP_DYN
      else if strcasecmp opt_maxflow_alg ''dinics'' = 0 then Inr ALG_DINITZ
      else if strcasecmp opt_maxflow_alg ''dinics-linkcut'' = 0 then Inr ALG_DINITZ_LINKCUT
      else if strcasecmp opt_maxflow_alg ''dinitz'' = 0 then Inr ALG_DINITZ
      else if strcasecmp opt_maxflow_alg ''dinitz-linkcut'' = 0 then Inr ALG_DINITZ_LINKCUT
      else if strcasecmp opt_maxflow_alg ''dinits'' = 0 then Inr ALG_DINITZ
      else if strcasecmp opt_maxflow_alg ''dinits-linkcut'' = 0 then Inr ALG_DINITZ_LINKCUT
      else if strcasecmp opt_maxflow_alg ''kohli-torr'' = 0 then Inr ALG_KOHLI_TORR
      else Inl (api_errorf ''Error: unknown max-flow/min-cut algorithm %s, aborting\<newline>''
                  [ArgStr opt_maxflow_alg]))"

section \<open>The solver state\<close>

text \<open>The three-valued \<^verbatim>\<open>lbool\<close>. Its integer form is the one the API documents:
  "Returns 0 for true, 1 for false, 2 for unassigned" (Monosat.cpp, line 2013).\<close>

datatype lbool = l_True | l_False | l_Undef

fun toInt_lbool :: "lbool \<Rightarrow> int" where
  "toInt_lbool l_True = 0"
| "toInt_lbool l_False = 1"
| "toInt_lbool l_Undef = 2"

text \<open>\<^verbatim>\<open>MonosatData\<close>, the record the API hangs on the solver (\<^verbatim>\<open>S->_external_data\<close>), as
  far as the functions below use it. The output file is \<open>None\<close> when no file is set, and
  otherwise the writes made to it so far, in order: each is the text of one
  \<^verbatim>\<open>vfprintf\<close>, or \<open>None\<close> where that call has no defined output.\<close>

record MonosatData =
  outfile :: "string option list option"
  last_solution_optimal :: bool
  has_conflict_clause_from_last_solution :: bool

text \<open>Modelled from the spec: the solver \<^verbatim>\<open>SimpSolver\<close> (Solver.h and SimpSolver.h are
  not among the sources), as far as the API functions below read and write it: the
  number of internal variables, the two dense arrays of the variable map (external to
  internal and back), the table of named variables, the clauses posted, the variables
  excluded from elimination, the conflict set (the unsat core of the last solve, a set
  that keeps insertion order), the model of the last satisfiable solve, and the API's
  own data. The search state of the engine (trail, watches, learnt clauses) is not part
  of the record.\<close>

record SimpSolver =
  nVars :: int
  var_map :: "Var list"
  var_reverse_map :: "Var list"
  var_names :: "string \<rightharpoonup> Var"
  clauses :: "Lit list list"
  no_elimination :: "Var list"
  conflict :: "Lit list"
  model :: "lbool list"
  external_data :: MonosatData

text \<open>\<^verbatim>\<open>write_out\<close> (Monosat.cpp, line 377): nothing without an output file, one
  formatted write with one. (A failing write throws; writes do not fail here.)\<close>

definition write_out :: "SimpSolver \<Rightarrow> string \<Rightarrow> arg list \<Rightarrow> SimpSolver" where
  "write_out S fmt args =
     (case outfile (external_data S) of
        None \<Rightarrow> S
      | Some out \<Rightarrow>
          S\<lparr>external_data := (external_data S)\<lparr>outfile := Some (out @ [vfprintf fmt args])\<rparr>\<rparr>)"

subsection \<open>The variable map\<close>

text \<open>Modelled from the spec: \<^verbatim>\<open>S->mapVar\<close>, the lookup in the array from external to
  internal variables ("maintains two dense arrays: ext to int and int to ext"). A variable
  outside the array is passed through.\<close>

definition S_mapVar :: "SimpSolver \<Rightarrow> Var \<Rightarrow> Var" where
  "S_mapVar S v = (if 0 \<le> v \<and> nat v < length (var_map S) then var_map S ! nat v else v)"

text \<open>Modelled from the spec: \<^verbatim>\<open>S->unmap\<close> on a variable, the lookup in the array from
  internal to external variables. A variable outside the array is passed through.\<close>

definition S_unmapVar :: "SimpSolver \<Rightarrow> Var \<Rightarrow> Var" where
  "S_unmapVar S v =
     (if 0 \<le> v \<and> nat v < length (var_reverse_map S) then var_reverse_map S ! nat v else v)"

text \<open>Modelled from the spec: \<^verbatim>\<open>S->mapLit\<close> and \<^verbatim>\<open>S->unmap\<close> on a literal rename the
  variable and keep the sign.\<close>

definition S_mapLit :: "SimpSolver \<Rightarrow> Lit \<Rightarrow> Lit" where
  "S_mapLit S l = mkLit (S_mapVar S (var l)) (sign l)"

definition S_unmapLit :: "SimpSolver \<Rightarrow> Lit \<Rightarrow> Lit" where
  "S_unmapLit S l = mkLit (S_unmapVar S (var l)) (sign l)"

text \<open>Modelled from the spec: \<^verbatim>\<open>S->nMappedVars\<close>, the number of external variables.\<close>

definition nMappedVars :: "SimpSolver \<Rightarrow> int" where
  "nMappedVars S = int (length (var_map S))"

text \<open>Modelled from the spec: \<^verbatim>\<open>S->newVar\<close> allocates the next internal variable and
  enters it in both arrays under the next external variable.\<close>

definition S_newVar :: "SimpSolver \<Rightarrow> Var \<times> SimpSolver" where
  "S_newVar S =
     (let v = nVars S
      in (v, S\<lparr>nVars := v + 1,
               var_map := var_map S @ [v],
               var_reverse_map := var_reverse_map S @ [nMappedVars S]\<rparr>))"

text \<open>\<^verbatim>\<open>internalLit\<close>, \<^verbatim>\<open>externalLit\<close>, \<^verbatim>\<open>internalVar\<close>, \<^verbatim>\<open>externalVar\<close> and
  \<^verbatim>\<open>dimacs(S, Lit)\<close> (Monosat.cpp, lines 396 to 422).\<close>

definition internalLit :: "SimpSolver \<Rightarrow> int \<Rightarrow> Lit" where
  "internalLit S l = S_mapLit S (toLit l)"

definition externalLit :: "SimpSolver \<Rightarrow> Lit \<Rightarrow> int" where
  "externalLit S l = toInt (S_unmapLit S l)"

definition internalVar :: "SimpSolver \<Rightarrow> int \<Rightarrow> Var" where
  "internalVar S v = S_mapVar S v"

definition externalVar :: "SimpSolver \<Rightarrow> Var \<Rightarrow> Var" where
  "externalVar S v = S_unmapVar S v"

definition dimacs_S :: "SimpSolver \<Rightarrow> Lit \<Rightarrow> int" where
  "dimacs_S S internal_lit =
     (let l = S_unmapLit S internal_lit
      in if sign l then - (var l + 1) else var l + 1)"

text \<open>An external literal is allocated when its variable is one of the external
  variables.\<close>

definition allocated :: "SimpSolver \<Rightarrow> int \<Rightarrow> bool" where
  "allocated S e \<longleftrightarrow> 0 \<le> var (toLit e) \<and> var (toLit e) < nMappedVars S"

text \<open>The invariant of the variable map, from the specification's data model: "for
  every external variable handed to a client, there is exactly one internal variable;
  the map is a bijection". Every external variable has an internal variable of the
  solver, the reverse array covers the internal variables, and each array leads back
  through the other.\<close>

definition varmap_ok :: "SimpSolver \<Rightarrow> bool" where
  "varmap_ok S \<longleftrightarrow>
     int (length (var_reverse_map S)) = nVars S \<and>
     (\<forall>e < length (var_map S).
        0 \<le> var_map S ! e \<and> var_map S ! e < nVars S \<and>
        var_reverse_map S ! nat (var_map S ! e) = int e) \<and>
     (\<forall>i < length (var_reverse_map S).
        0 \<le> var_reverse_map S ! i \<and> var_reverse_map S ! i < nMappedVars S \<and>
        var_map S ! nat (var_reverse_map S ! i) = int i)"

text \<open>\<^verbatim>\<open>newVar\<close> (Monosat.cpp, line 1016).\<close>

definition newVar :: "SimpSolver \<Rightarrow> int \<times> SimpSolver" where
  "newVar S = (let (v, S') = S_newVar S in (externalVar S' v, S'))"

text \<open>A solver without variables and clauses, as \<^verbatim>\<open>newSolver\<close> creates it; when
  \<open>with_output\<close> holds an output file is set, here with nothing written to it yet (the
  header line that \<^verbatim>\<open>setOutputFile\<close> writes is left out).\<close>

definition newSolver :: "bool \<Rightarrow> SimpSolver" where
  "newSolver with_output =
     \<lparr>nVars = 0, var_map = [], var_reverse_map = [], var_names = Map.empty, clauses = [],
      no_elimination = [], conflict = [], model = [],
      external_data = \<lparr>outfile = (if with_output then Some [] else None),
                       last_solution_optimal = True,
                       has_conflict_clause_from_last_solution = False\<rparr>\<rparr>"

subsection \<open>Named variables\<close>

text \<open>Modelled from the spec: \<^verbatim>\<open>S->hasVariable\<close> and \<^verbatim>\<open>S->setVariableName\<close>, lookup
  and entry in the table of named variables ("named variables [...] live in [a] hash
  table; names must be unique non-empty"). An empty name is no entry.\<close>

definition S_hasVariable :: "SimpSolver \<Rightarrow> string \<Rightarrow> bool" where
  "S_hasVariable S name \<longleftrightarrow> var_names S name \<noteq> None"

definition S_setVariableName :: "SimpSolver \<Rightarrow> Var \<Rightarrow> string \<Rightarrow> SimpSolver" where
  "S_setVariableName S v name =
     (if name = [] then S else S\<lparr>var_names := (var_names S)(name \<mapsto> v)\<rparr>)"

text \<open>The C library's character classes in the C locale. \<^verbatim>\<open>isascii\<close> holds of the bytes
  below 128, \<^verbatim>\<open>isprint\<close> of the bytes from the space to the tilde, \<^verbatim>\<open>isspace\<close> of the
  space and of the five control characters from the tabulator to the carriage return.\<close>

definition isascii :: "char \<Rightarrow> bool" where
  "isascii c \<longleftrightarrow> (of_char c :: nat) < 128"

definition isprint :: "char \<Rightarrow> bool" where
  "isprint c \<longleftrightarrow> 32 \<le> (of_char c :: nat) \<and> (of_char c :: nat) \<le> 126"

definition isspace :: "char \<Rightarrow> bool" where
  "isspace c \<longleftrightarrow> (of_char c :: nat) = 32 \<or> (9 \<le> (of_char c :: nat) \<and> (of_char c :: nat) \<le> 13)"

text \<open>\<^verbatim>\<open>setVariableName\<close> (Monosat.cpp, line 1044). A \<^verbatim>\<open>char *\<close> argument is \<open>None\<close> when
  it is the null pointer.\<close>

definition setVariableName :: "SimpSolver \<Rightarrow> int \<Rightarrow> string option \<Rightarrow> SimpSolver" where
  "setVariableName S variable varname =
     (case varname of
        None \<Rightarrow> S_setVariableName S (internalVar S variable) []
      | Some name \<Rightarrow>
          (let S1 = S_setVariableName S (internalVar S variable) name
           in write_out S1 ''symbol %d %s\<newline>'' [ArgInt (variable + 1), ArgStr name]))"

text \<open>\<^verbatim>\<open>newNamedVar\<close> (Monosat.cpp, line 1021): the value returned or the exception
  thrown, and the solver after the call.\<close>

definition newNamedVar :: "SimpSolver \<Rightarrow> string option \<Rightarrow> (error + int) \<times> SimpSolver" where
  "newNamedVar S varname =
     (if varname \<noteq> None \<and> length (the varname) > 0 then
        (let name = the varname
         in if S_hasVariable S name then
              (Inl (invalid_argument ''All variable names must be unique.''), S)
            else if \<exists>c \<in> set name. \<not> isascii c \<or> \<not> isprint c \<or> isspace c then
              (Inl (invalid_argument
                 (''Variable names must consist only of printable, non-whitespace ASCII. Invalid character in variable name: '' @ name)), S)
            else
              (let (v, S1) = newVar S;
                   S2 = setVariableName S1 v varname
               in (Inr v, S2)))
      else (let (v, S1) = newVar S in (Inr v, S1)))"

subsection \<open>Model queries\<close>

text \<open>\<^verbatim>\<open>getModel_Literal\<close> (Monosat.cpp, line 2014).\<close>

definition getModel_Literal :: "SimpSolver \<Rightarrow> int \<Rightarrow> error + int" where
  "getModel_Literal S lit =
     (let l = internalLit S lit
      in if var l < 0 \<or> var l \<ge> nVars S then
           Inl (api_errorf ''Variable %d is undefined'' [ArgInt (dimacs_S S l)])
         else if var l \<ge> int (length (model S)) then Inr (toInt_lbool l_Undef)
         else
           (let val = model S ! nat (var l);
                val' = (if sign l then
                          (if val = l_True then l_False
                           else if val = l_False then l_True
                           else val)
                        else val)
            in Inr (toInt_lbool val')))"

section \<open>The bitvector theory\<close>

text \<open>The values of \<^verbatim>\<open>enum Comparison\<close> that the API passes to the theory.\<close>

datatype Comparison = lt | leq | gt | geq

text \<open>Modelled from the spec: the bitvector theory \<^verbatim>\<open>BVTheorySolver\<close> (BVTheory.h is not
  among the sources), as far as the API functions below use it: the explicit bit
  literals of each bitvector (none for an anonymous one), the renaming of bitvector ids,
  the comparison literals ("comparison literal: (op, bv, constant or bv)") and the
  popcount nodes of the operator DAG.\<close>

record BVTheorySolver =
  bv_bits :: "int \<Rightarrow> Lit list"
  bv_map :: "int \<Rightarrow> int"
  comparisons :: "(Comparison \<times> int \<times> int \<times> Lit) list"
  popcounts :: "(int \<times> Var list) list"

definition getBits :: "BVTheorySolver \<Rightarrow> int \<Rightarrow> Lit list" where
  "getBits bv bvID = bv_bits bv bvID"

definition mapBV :: "BVTheorySolver \<Rightarrow> int \<Rightarrow> int" where
  "mapBV bv bvID = bv_map bv bvID"

text \<open>Modelled from the spec: \<^verbatim>\<open>bv->toSolver\<close>. The theory's own numbering of its
  literals is not part of the specification: a theory literal is the solver's
  literal.\<close>

definition toSolver :: "BVTheorySolver \<Rightarrow> Lit \<Rightarrow> Lit" where
  "toSolver bv l = l"

text \<open>Modelled from the spec: \<^verbatim>\<open>bv->newComparisonBV\<close> creates the literal of a comparison
  between two bitvectors, on a fresh variable of the solver.\<close>

definition newComparisonBV ::
  "SimpSolver \<Rightarrow> BVTheorySolver \<Rightarrow> Comparison \<Rightarrow> int \<Rightarrow> int \<Rightarrow> Lit \<times> SimpSolver \<times> BVTheorySolver" where
  "newComparisonBV S bv op bvID toID =
     (let (v, S') = S_newVar S;
          l = mkLit v False
      in (l, S', bv\<lparr>comparisons := comparisons bv @ [(op, bvID, toID, l)]\<rparr>))"

text \<open>Modelled from the spec: \<^verbatim>\<open>bv->newPopCountBV\<close> adds a popcount node to the operator
  DAG.\<close>

definition newPopCountBV :: "BVTheorySolver \<Rightarrow> int \<Rightarrow> Var list \<Rightarrow> BVTheorySolver" where
  "newPopCountBV bv resultID args = bv\<lparr>popcounts := popcounts bv @ [(resultID, args)]\<rparr>"

text \<open>Modelled from the spec: \<^verbatim>\<open>S->addClause\<close> posts a clause, \<^verbatim>\<open>S->disableElimination\<close>
  excludes a variable from elimination.\<close>

definition S_addClause :: "SimpSolver \<Rightarrow> Lit list \<Rightarrow> SimpSolver" where
  "S_addClause S ps = S\<lparr>clauses := clauses S @ [ps]\<rparr>"

definition S_disableElimination :: "SimpSolver \<Rightarrow> Var \<Rightarrow> SimpSolver" where
  "S_disableElimination S v = S\<lparr>no_elimination := no_elimination S @ [v]\<rparr>"

text \<open>\<^verbatim>\<open>internalBV(bv, bvID)\<close> (Monosat.cpp, line 428).\<close>

definition internalBV :: "BVTheorySolver \<Rightarrow> int \<Rightarrow> int" where
  "internalBV bv bvID = mapBV bv bvID"

text \<open>\<^verbatim>\<open>newBVComparison_bv_gt\<close> and \<^verbatim>\<open>newBVComparison_bv_geq\<close> (Monosat.cpp, lines 1311
  and 1326).\<close>

definition newBVComparison_bv_gt ::
  "SimpSolver \<Rightarrow> BVTheorySolver \<Rightarrow> int \<Rightarrow> int \<Rightarrow> int \<times> SimpSolver \<times> BVTheorySolver" where
  "newBVComparison_bv_gt S bv bvID compareID =
     (let (l0, S1, bv1) = newComparisonBV S bv gt (internalBV bv bvID) compareID;
          l = toSolver bv1 l0;
          S2 = write_out S1 ''bv > %d %d %d\<newline>''
                 [ArgInt (dimacs_S S1 l), ArgInt bvID, ArgInt compareID]
      in (externalLit S2 l, S2, bv1))"

definition newBVComparison_bv_geq ::
  "SimpSolver \<Rightarrow> BVTheorySolver \<Rightarrow> int \<Rightarrow> int \<Rightarrow> int \<times> SimpSolver \<times> BVTheorySolver" where
  "newBVComparison_bv_geq S bv bvID compareID =
     (let (l0, S1, bv1) = newComparisonBV S bv geq (internalBV bv bvID) compareID;
          l = toSolver bv1 l0;
          S2 = write_out S1 ''bv >= %d %d %d\<newline>''
                 [ArgInt (dimacs_S S1 l), ArgInt bvID, ArgInt compareID]
      in (externalLit S2 l, S2, bv1))"

text \<open>The loop of \<^verbatim>\<open>newBVComparison_bv_eq\<close> over the bits of the two bitvectors
  (Monosat.cpp, lines 1356 to 1362). It runs when both have the same number of bits.\<close>

fun bit_implications :: "SimpSolver \<Rightarrow> BVTheorySolver \<Rightarrow> Lit \<Rightarrow> Lit list \<Rightarrow> Lit list \<Rightarrow> SimpSolver" where
  "bit_implications S bv c (x # bits1) (y # bits2) =
     (let l1 = toSolver bv x;
          l2 = toSolver bv y;
          S1 = S_addClause S [l1, neg l2, neg c];
          S2 = S_addClause S1 [neg l1, l2, neg c]
      in bit_implications S2 bv c bits1 bits2)"
| "bit_implications S bv c bits1 bits2 = S"

text \<open>\<^verbatim>\<open>newBVComparison_bv_eq\<close> (Monosat.cpp, line 1343).\<close>

definition newBVComparison_bv_eq ::
  "SimpSolver \<Rightarrow> BVTheorySolver \<Rightarrow> int \<Rightarrow> int \<Rightarrow> int \<times> SimpSolver \<times> BVTheorySolver" where
  "newBVComparison_bv_eq S bv bvID compareID =
     (let (ea, S1, bv1) = newBVComparison_bv_geq S bv bvID compareID;
          a = internalLit S1 ea;
          (eb, S2, bv2) = newBVComparison_bv_gt S1 bv1 bvID compareID;
          b = internalLit S2 eb;
          (v, S3) = S_newVar S2;
          c = mkLit v False;
          S4 = S_disableElimination S3 (var c);
          S5 = S_addClause S4 [a, neg c];
          S6 = S_addClause S5 [neg b, neg c];
          S7 = S_addClause S6 [c, neg a, b];
          bits1 = getBits bv2 (internalBV bv2 bvID);
          bits2 = getBits bv2 (internalBV bv2 compareID);
          S8 = (if length bits1 = length bits2 then bit_implications S7 bv2 c bits1 bits2
                else S7)
      in (externalLit S8 c, S8, bv2))"

text \<open>The first loop of \<^verbatim>\<open>bv_popcount\<close> (Monosat.cpp, lines 1397 to 1403): the variables
  of the arguments, or the error thrown at the first negative literal.\<close>

fun popcount_args :: "SimpSolver \<Rightarrow> int list \<Rightarrow> error + Var list" where
  "popcount_args S [] = Inr []"
| "popcount_args S (a # args) =
     (let l = internalLit S a
      in if sign l then Inl (api_errorf ''Popcount arguments must all be positive literals'' [])
         else (case popcount_args S args of
                 Inl e \<Rightarrow> Inl e
               | Inr m_args \<Rightarrow> Inr (var l # m_args)))"

text \<open>The second loop of \<^verbatim>\<open>bv_popcount\<close> (lines 1405 to 1407), which writes the
  arguments to the output file.\<close>

fun popcount_write :: "SimpSolver \<Rightarrow> Var list \<Rightarrow> SimpSolver" where
  "popcount_write S [] = S"
| "popcount_write S (v # m_args) =
     popcount_write (write_out S '' %d'' [ArgInt (dimacs_S S (mkLit v False))]) m_args"

text \<open>\<^verbatim>\<open>bv_popcount\<close> (Monosat.cpp, line 1395). The array \<^verbatim>\<open>args\<close> with its length
  \<^verbatim>\<open>n_args\<close> is a list.\<close>

definition bv_popcount ::
  "SimpSolver \<Rightarrow> BVTheorySolver \<Rightarrow> int list \<Rightarrow> int \<Rightarrow> (error + unit) \<times> SimpSolver \<times> BVTheorySolver" where
  "bv_popcount S bv args resultID =
     (case popcount_args S args of
        Inl e \<Rightarrow> (Inl e, S, bv)
      | Inr m_args \<Rightarrow>
          (let S1 = write_out S ''bv popcount %d %d'' [ArgInt resultID, ArgInt (int (length args))];
               S2 = popcount_write S1 m_args;
               S3 = write_out S2 ''\<newline>'' [];
               bv1 = newPopCountBV bv (internalBV bv resultID) m_args
           in (Inr (), S3, bv1)))"

section \<open>The graph theory\<close>

text \<open>Modelled from the spec: the graph theory \<^verbatim>\<open>GraphTheorySolver\<close> (GraphTheory.h is
  not among the sources), as far as the API functions below use it: the id of the
  graph, the table of reachability detectors ("a detector is instantiated on demand when
  a predicate literal is first posted, and is re-used if an equivalent predicate is
  posted again", keyed "on (from, to, steps) including the sentinel -1 for any length"),
  and the spanning-tree predicates posted (variable, weight, inclusive).\<close>

record GraphTheorySolver =
  graphID :: int
  reach_lits :: "int \<times> int \<times> int \<rightharpoonup> Lit"
  mst_lits :: "(Var \<times> int \<times> bool) list"

definition getGraphID :: "GraphTheorySolver \<Rightarrow> int" where
  "getGraphID G = graphID G"

text \<open>Modelled from the spec: \<^verbatim>\<open>G->hasReach\<close>, whether the predicate has been posted.\<close>

definition G_hasReach :: "GraphTheorySolver \<Rightarrow> int \<Rightarrow> int \<Rightarrow> int \<Rightarrow> bool" where
  "G_hasReach G from to within_steps \<longleftrightarrow> reach_lits G (from, to, within_steps) \<noteq> None"

text \<open>Modelled from the spec: \<^verbatim>\<open>G->reaches\<close> returns the literal of a predicate posted
  before, and otherwise posts it: on a fresh variable of the solver when the variable
  passed is \<^verbatim>\<open>var_Undef\<close>, on the variable passed otherwise.\<close>

definition G_reaches ::
  "SimpSolver \<Rightarrow> GraphTheorySolver \<Rightarrow> int \<Rightarrow> int \<Rightarrow> Var \<Rightarrow> int \<Rightarrow> Lit \<times> SimpSolver \<times> GraphTheorySolver" where
  "G_reaches S G from to outer_var within_steps =
     (case reach_lits G (from, to, within_steps) of
        Some l \<Rightarrow> (l, S, G)
      | None \<Rightarrow>
          (let (v, S') = (if outer_var = var_Undef then S_newVar S else (outer_var, S));
               l = mkLit v False
           in (l, S', G\<lparr>reach_lits := (reach_lits G)((from, to, within_steps) \<mapsto> l)\<rparr>)))"

text \<open>Modelled from the spec: \<^verbatim>\<open>G->minimumSpanningTree\<close> posts a spanning-tree predicate
  on the variable given.\<close>

definition G_minimumSpanningTree :: "GraphTheorySolver \<Rightarrow> Var \<Rightarrow> int \<Rightarrow> bool \<Rightarrow> GraphTheorySolver" where
  "G_minimumSpanningTree G v weight inclusive = G\<lparr>mst_lits := mst_lits G @ [(v, weight, inclusive)]\<rparr>"

text \<open>\<^verbatim>\<open>reaches\<close> (Monosat.cpp, line 1669).\<close>

definition reaches ::
  "SimpSolver \<Rightarrow> GraphTheorySolver \<Rightarrow> int \<Rightarrow> int \<Rightarrow> int \<times> SimpSolver \<times> GraphTheorySolver" where
  "reaches S G from to =
     (if G_hasReach G from to (-1) then
        (let (l, S1, G1) = G_reaches S G from to var_Undef (-1)
         in (externalLit S1 l, S1, G1))
      else
        (let (l, S1, G1) = G_reaches S G from to var_Undef (-1);
             S2 = write_out S1 ''reach %d %d %d %d\<newline>''
                    [ArgInt (getGraphID G1), ArgInt from, ArgInt to, ArgInt (dimacs_S S1 l)]
         in (externalLit S2 l, S2, G1)))"

text \<open>\<^verbatim>\<open>shortestPathUnweighted_lt_const\<close> (Monosat.cpp, line 1699). The bound
  \<^verbatim>\<open>steps - 1\<close> is computed in \<^verbatim>\<open>int\<close>.\<close>

definition shortestPathUnweighted_lt_const ::
  "SimpSolver \<Rightarrow> GraphTheorySolver \<Rightarrow> int \<Rightarrow> int \<Rightarrow> int \<Rightarrow> int \<times> SimpSolver \<times> GraphTheorySolver" where
  "shortestPathUnweighted_lt_const S G from to steps =
     (if G_hasReach G from to (int32 (steps - 1)) then
        (let (l, S1, G1) = G_reaches S G from to var_Undef (int32 (steps - 1))
         in (externalLit S1 l, S1, G1))
      else
        (let (l, S1, G1) = G_reaches S G from to var_Undef (int32 (steps - 1));
             S2 = write_out S1 ''distance_lt %d %d %d %d %d\<newline>''
                    [ArgInt (getGraphID G1), ArgInt from, ArgInt to, ArgInt (dimacs_S S1 l),
                     ArgInt steps]
         in (externalLit S2 l, S2, G1)))"

text \<open>The format of the trace line of \<^verbatim>\<open>minimumSpanningTree_leq\<close> (Monosat.cpp, line
  1818), and the format of the line \<^verbatim>\<open>mst_weight_leq <gid> <lit> <k>\<close> that the
  specification's grammar of the trace gives.\<close>

definition mst_weight_leq_format :: string where
  "mst_weight_leq_format = ''mst_weight_leq %d %d %d %d %d %'' @ PRId64 @ ''\<newline>''"

definition mst_weight_leq_grammar :: string where
  "mst_weight_leq_grammar = ''mst_weight_leq %d %d %'' @ PRId64 @ ''\<newline>''"

text \<open>\<^verbatim>\<open>minimumSpanningTree_leq\<close> (Monosat.cpp, line 1815).\<close>

definition minimumSpanningTree_leq ::
  "SimpSolver \<Rightarrow> GraphTheorySolver \<Rightarrow> int \<Rightarrow> int \<times> SimpSolver \<times> GraphTheorySolver" where
  "minimumSpanningTree_leq S G weight =
     (let (v, S1) = newVar S;
          l = mkLit v False;
          S2 = write_out S1 mst_weight_leq_format
                 [ArgInt (getGraphID G), ArgInt (dimacs_S S1 l), ArgLong weight];
          G1 = G_minimumSpanningTree G v weight True
      in (externalLit S2 l, S2, G1))"

section \<open>Minimizing an unsat core\<close>






section \<open>Notions of the claims\<close>

text \<open>The names of max-flow algorithms that the specification lists for
  \<^verbatim>\<open>opt_maxflow_alg\<close>, and the names that \<^verbatim>\<open>_selectAlgorithms\<close> compares the option
  with.\<close>

definition spec_maxflow_names :: "string set" where
  "spec_maxflow_names =
     {''edmondskarp'', ''edmondskarp-adj'', ''edmondskarp-dynamic'', ''dinitz'',
      ''dinitz-linkcut'', ''kohli-torr''}"

definition maxflow_names :: "string set" where
  "maxflow_names =
     {''edmondskarp-adj'', ''edmondskarp'', ''edmondskarp-dynamic'', ''dinics'',
      ''dinics-linkcut'', ''dinitz'', ''dinitz-linkcut'', ''dinits'', ''dinits-linkcut'',
      ''kohli-torr''}"

text \<open>The flip of a model value: true and false exchanged, unassigned kept.\<close>

fun flip_lbool :: "lbool \<Rightarrow> lbool" where
  "flip_lbool l_True = l_False"
| "flip_lbool l_False = l_True"
| "flip_lbool l_Undef = l_Undef"

text \<open>A printable ASCII character that is no white space: one of the bytes from
  \<^verbatim>\<open>!\<close> to \<^verbatim>\<open>~\<close>.\<close>

definition printable_nonspace_ascii :: "char \<Rightarrow> bool" where
  "printable_nonspace_ascii c \<longleftrightarrow> 33 \<le> (of_char c :: nat) \<and> (of_char c :: nat) \<le> 126"

text \<open>Truth under an assignment of the variables: a literal is true when its variable
  has the value its sign asks for, a clause when one of its literals is, and the
  assignment satisfies the solver when every clause posted is true.\<close>

definition lit_true :: "(Var \<Rightarrow> bool) \<Rightarrow> Lit \<Rightarrow> bool" where
  "lit_true \<sigma> l \<longleftrightarrow> \<sigma> (var l) \<noteq> sign l"

definition clause_true :: "(Var \<Rightarrow> bool) \<Rightarrow> Lit list \<Rightarrow> bool" where
  "clause_true \<sigma> ps \<longleftrightarrow> (\<exists>l \<in> set ps. lit_true \<sigma> l)"

definition satisfies :: "(Var \<Rightarrow> bool) \<Rightarrow> SimpSolver \<Rightarrow> bool" where
  "satisfies \<sigma> S \<longleftrightarrow> (\<forall>ps \<in> set (clauses S). clause_true \<sigma> ps)"

text \<open>What a comparison says of the values of two bitvectors, and an assignment that,
  with values \<open>\<beta>\<close> of the bitvectors, gives every comparison literal of the theory the
  truth of its comparison.\<close>

fun compare :: "Comparison \<Rightarrow> int \<Rightarrow> int \<Rightarrow> bool" where
  "compare lt x y \<longleftrightarrow> x < y"
| "compare leq x y \<longleftrightarrow> x \<le> y"
| "compare gt x y \<longleftrightarrow> x > y"
| "compare geq x y \<longleftrightarrow> x \<ge> y"

definition comparisons_hold :: "(Var \<Rightarrow> bool) \<Rightarrow> (int \<Rightarrow> int) \<Rightarrow> BVTheorySolver \<Rightarrow> bool" where
  "comparisons_hold \<sigma> \<beta> bv \<longleftrightarrow>
     (\<forall>(cmp, x, y, l) \<in> set (comparisons bv).
        lit_true \<sigma> l = compare cmp (\<beta> x) (\<beta> y))"

section \<open>Example states\<close>

text \<open>A solver with two variables whose map exchanges them; the same solver after a
  solve whose model holds the first internal variable only; and the same solver with
  its first internal variable named \<^verbatim>\<open>x\<close>.\<close>

definition solver2 :: SimpSolver where
  "solver2 = (newSolver False)\<lparr>nVars := 2, var_map := [1, 0], var_reverse_map := [1, 0]\<rparr>"

definition solver2m :: SimpSolver where
  "solver2m = solver2\<lparr>model := [l_True]\<rparr>"

definition solver2n :: SimpSolver where
  "solver2n = solver2\<lparr>var_names := [''x'' \<mapsto> 0]\<rparr>"

text \<open>A bitvector theory with no bitvectors of explicit bits and no renaming; one
  whose bitvectors 0 and 1 have one explicit bit each; an assignment of the variables
  and values of the bitvectors for it.\<close>

definition bv0 :: BVTheorySolver where
  "bv0 = \<lparr>bv_bits = (\<lambda>i. []), bv_map = (\<lambda>i. i), comparisons = [], popcounts = []\<rparr>"

definition bv_bits2 :: BVTheorySolver where
  "bv_bits2 = bv0\<lparr>bv_bits := (\<lambda>i. if i = 0 then [toLit 0] else if i = 1 then [toLit 2] else [])\<rparr>"

definition sigma_eq :: "Var \<Rightarrow> bool" where
  "sigma_eq v \<longleftrightarrow> v \<noteq> 3"

definition beta_eq :: "int \<Rightarrow> int" where
  "beta_eq i = 1"

text \<open>A bitvector theory that renames the bitvector \<open>i\<close> of its callers to its own
  bitvector \<open>i + 10\<close>; values of the bitvectors under which the bitvectors 10 and 11
  are equal and the bitvector 1 differs from them; the assignment in which every
  variable is false.\<close>

definition bv_renamed :: BVTheorySolver where
  "bv_renamed = bv0\<lparr>bv_map := (\<lambda>i. i + 10)\<rparr>"

definition beta_renamed :: "int \<Rightarrow> int" where
  "beta_renamed i = (if i = 1 then 2 else 1)"

definition sigma_false :: "Var \<Rightarrow> bool" where
  "sigma_false v \<longleftrightarrow> False"

text \<open>A graph with the id 0 and no predicates.\<close>

definition graph0 :: GraphTheorySolver where
  "graph0 = \<lparr>graphID = 0, reach_lits = Map.empty, mst_lits = []\<rparr>"





section \<open>The literal algebra\<close>

lemma sign_iff_odd: "sign p \<longleftrightarrow> odd (toInt p)"
  by (simp add: sign_def and_one_eq mod2_eq_if)

lemma var_eq_div: "var p = toInt p div 2"
  by (simp add: var_def drop_bit_eq_div)

lemma var_mkLit [simp]: "var (mkLit v s) = v"
  by (simp add: var_eq_div mkLit_def)

lemma sign_mkLit [simp]: "sign (mkLit v s) = s"
  by (simp add: sign_iff_odd mkLit_def)

lemma mkLit_var_sign [simp]: "mkLit (var p) (sign p) = p"
  by (cases p) (auto simp: mkLit_def var_eq_div sign_iff_odd elim!: oddE)

lemma var_neg [simp]: "var (neg p) = var p"
  by (simp add: var_def neg_def drop_bit_eq_div xor_int_unfold [of _ 1] )

lemma sign_neg [simp]: "sign (neg p) = (\<not> sign p)"
  by (simp add: sign_iff_odd neg_def even_xor_iff)

lemma int32_id: "- (2 ^ 31) \<le> i \<Longrightarrow> i < 2 ^ 31 \<Longrightarrow> int32 i = i"
  by (simp add: int32_def signed_take_bit_int_eq_self)

text \<open>
  Claim C3, as stated: for every non-negative variable \<open>v\<close> and boolean \<open>s\<close>,
  \<^verbatim>\<open>varToLit(v, s)\<close> is \<open>2 * v + s\<close>. The variable \<open>2^30\<close> is an \<^verbatim>\<open>int\<close>, and its positive
  literal would be \<open>2^31\<close>, which is none: the function returns \<open>- 2^31\<close>.
\<close>

theorem varToLit_counterexample:
  "(0::int) \<le> 1073741824 \<and>
   varToLit 1073741824 False = - 2147483648 \<and>
   varToLit 1073741824 False \<noteq> 2 * 1073741824 + (if False then 1 else 0)"
  by (simp add: varToLit_def mkLit_def int32_def)

text \<open>
  Claim C3, amended. For every variable \<open>v\<close> with \<open>0 \<le> v < 2^30\<close> and boolean \<open>s\<close>,
  \<^verbatim>\<open>varToLit(v, s)\<close> is \<open>2 * v + s\<close>; and for every external literal \<open>e\<close>, \<^verbatim>\<open>dimacs(e)\<close> is
  \<open>- (var + 1)\<close> when the low bit of \<open>e\<close> is set and \<open>var + 1\<close> otherwise, where
  \<open>var = e div 2\<close> (the quotient rounded down).
\<close>

theorem varToLit_dimacs_encoding:
  "(0 \<le> v \<and> v < 2 ^ 30 \<longrightarrow> varToLit v s = 2 * v + (if s then 1 else 0)) \<and>
   dimacs e = (if bit e 0 then - (e div 2 + 1) else e div 2 + 1)"
proof -
  have "varToLit v s = 2 * v + (if s then 1 else 0)" if "0 \<le> v \<and> v < 2 ^ 30"
    using that by (simp add: varToLit_def mkLit_def int32_id)
  moreover have "dimacs e = (if bit e 0 then - (e div 2 + 1) else e div 2 + 1)"
    by (simp add: dimacs_def sign_iff_odd var_eq_div bit_0)
  ultimately show ?thesis by blast
qed

theorem varToLit_dimacs_encoding_witness:
  "(0::int) \<le> 3 \<and> (3::int) < 2 ^ 30 \<and> varToLit 3 True = 7 \<and> dimacs 7 = - 4 \<and> dimacs 6 = 4"
  using varToLit_dimacs_encoding [of 3 True 7] varToLit_dimacs_encoding [of 3 True 6]
  by (simp add: bit_0)

text \<open>The DIMACS form of an \<^verbatim>\<open>int\<close> lies in the 32-bit range: no sum in \<^verbatim>\<open>dimacs\<close>
  leaves it.\<close>

lemma dimacs_in_int_range:
  "- (2 ^ 31) \<le> e \<Longrightarrow> e < 2 ^ 31 \<Longrightarrow> - (2 ^ 30) \<le> dimacs e \<and> dimacs e \<le> 2 ^ 30"
  by (auto simp add: dimacs_def var_eq_div Let_def)

section \<open>Algorithm selection\<close>

lemma of_char_zero_iff: "(of_char c :: nat) = 0 \<longleftrightarrow> c = CHR 0x00"
proof -
  have "(of_char c :: nat) = of_char (CHR 0x00) \<longleftrightarrow> c = CHR 0x00"
    by (rule of_char_eq_iff)
  then show ?thesis by simp
qed

lemma of_char_tolower:
  "(of_char (tolower c) :: nat) =
     (if 65 \<le> (of_char c :: nat) \<and> (of_char c :: nat) \<le> 90 then of_char c + 32 else of_char c)"
  by (simp add: tolower_def Let_def)

lemma of_char_tolower_zero_iff: "(of_char (tolower c) :: nat) = 0 \<longleftrightarrow> c = CHR 0x00"
  using of_char_zero_iff [of c] by (auto simp: of_char_tolower)

text \<open>On C strings, \<^verbatim>\<open>strcasecmp\<close> is 0 exactly when the strings agree after
  \<^verbatim>\<open>tolower\<close>.\<close>

lemma strcasecmp_zero_iff:
  "CHR 0x00 \<notin> set a \<Longrightarrow> CHR 0x00 \<notin> set b \<Longrightarrow>
   strcasecmp a b = 0 \<longleftrightarrow> map tolower a = map tolower b"
  by (induction a b rule: strcasecmp.induct) (auto simp: of_char_tolower_zero_iff)

lemma strcasecmp_name:
  assumes "CHR 0x00 \<notin> set s" and "CHR 0x00 \<notin> set name" and "map tolower name = name"
  shows "strcasecmp s name = 0 \<longleftrightarrow> map tolower s = name"
  using assms by (simp add: strcasecmp_zero_iff)

lemma strcasecmp_maxflow_names:
  assumes "CHR 0x00 \<notin> set s"
  shows "strcasecmp s ''edmondskarp-adj'' = 0 \<longleftrightarrow> map tolower s = ''edmondskarp-adj''"
    and "strcasecmp s ''edmondskarp'' = 0 \<longleftrightarrow> map tolower s = ''edmondskarp''"
    and "strcasecmp s ''edmondskarp-dynamic'' = 0 \<longleftrightarrow> map tolower s = ''edmondskarp-dynamic''"
    and "strcasecmp s ''dinics'' = 0 \<longleftrightarrow> map tolower s = ''dinics''"
    and "strcasecmp s ''dinics-linkcut'' = 0 \<longleftrightarrow> map tolower s = ''dinics-linkcut''"
    and "strcasecmp s ''dinitz'' = 0 \<longleftrightarrow> map tolower s = ''dinitz''"
    and "strcasecmp s ''dinitz-linkcut'' = 0 \<longleftrightarrow> map tolower s = ''dinitz-linkcut''"
    and "strcasecmp s ''dinits'' = 0 \<longleftrightarrow> map tolower s = ''dinits''"
    and "strcasecmp s ''dinits-linkcut'' = 0 \<longleftrightarrow> map tolower s = ''dinits-linkcut''"
    and "strcasecmp s ''kohli-torr'' = 0 \<longleftrightarrow> map tolower s = ''kohli-torr''"
  by (rule strcasecmp_name [OF assms]; simp add: tolower_def)+

text \<open>
  Claim C8, as stated: the strings accepted for \<^verbatim>\<open>opt_maxflow_alg\<close> are exactly the six
  names of the specification. The selection accepts \<^verbatim>\<open>dinics\<close>, which is none of them.
\<close>

theorem maxflow_names_counterexample:
  "selectAlgorithms_mincutalg ''dinics'' = Inr ALG_DINITZ \<and> ''dinics'' \<notin> spec_maxflow_names"
  by (simp add: selectAlgorithms_mincutalg_def spec_maxflow_names_def tolower_def)

text \<open>
  Claim C8, amended. A C string is accepted for \<^verbatim>\<open>opt_maxflow_alg\<close> exactly when, letter
  case ignored, it is one of the ten names \<^verbatim>\<open>edmondskarp\<close>, \<^verbatim>\<open>edmondskarp-adj\<close>,
  \<^verbatim>\<open>edmondskarp-dynamic\<close>, \<^verbatim>\<open>dinitz\<close>, \<^verbatim>\<open>dinitz-linkcut\<close>, \<^verbatim>\<open>dinics\<close>,
  \<^verbatim>\<open>dinics-linkcut\<close>, \<^verbatim>\<open>dinits\<close>, \<^verbatim>\<open>dinits-linkcut\<close>, \<^verbatim>\<open>kohli-torr\<close>; for every other
  string the selection throws a runtime error.
\<close>

theorem maxflow_names_accepted:
  assumes "CHR 0x00 \<notin> set s"
  shows "((\<exists>alg. selectAlgorithms_mincutalg s = Inr alg) \<longleftrightarrow> map tolower s \<in> maxflow_names) \<and>
         (map tolower s \<notin> maxflow_names \<longrightarrow>
            (\<exists>msg. selectAlgorithms_mincutalg s = Inl (runtime_error msg)))"
  by (simp add: selectAlgorithms_mincutalg_def strcasecmp_maxflow_names [OF assms]
      maxflow_names_def api_errorf_def)

theorem maxflow_names_accepted_witness:
  "CHR 0x00 \<notin> set ''Dinits-LinkCut'' \<and>
   (\<exists>alg. selectAlgorithms_mincutalg ''Dinits-LinkCut'' = Inr alg) \<and>
   CHR 0x00 \<notin> set ''dinic'' \<and> map tolower ''dinic'' \<notin> maxflow_names \<and>
   (\<exists>msg. selectAlgorithms_mincutalg ''dinic'' = Inl (runtime_error msg))"
proof -
  have a: "CHR 0x00 \<notin> set ''Dinits-LinkCut''" and b: "CHR 0x00 \<notin> set ''dinic''"
    by simp_all
  have c: "map tolower ''Dinits-LinkCut'' \<in> maxflow_names"
    and d: "map tolower ''dinic'' \<notin> maxflow_names"
    by (simp_all add: maxflow_names_def tolower_def char_of_eq_iff)
  show ?thesis
    using maxflow_names_accepted [OF a] maxflow_names_accepted [OF b] a b c d by blast
qed

section \<open>The variable map\<close>

lemma S_unmapVar_mapVar:
  assumes "varmap_ok S" and "0 \<le> v" and "v < nMappedVars S"
  shows "S_unmapVar S (S_mapVar S v) = v"
proof -
  from assms(2,3) have lt: "nat v < length (var_map S)"
    by (simp add: nMappedVars_def)
  with assms(1) have i: "0 \<le> var_map S ! nat v" "var_map S ! nat v < nVars S"
    and lead: "var_reverse_map S ! nat (var_map S ! nat v) = int (nat v)"
    by (simp_all add: varmap_ok_def)
  from assms(1) have "int (length (var_reverse_map S)) = nVars S"
    by (simp add: varmap_ok_def)
  with i have "nat (var_map S ! nat v) < length (var_reverse_map S)"
    by linarith
  with i lead lt assms(2) show ?thesis
    by (simp add: S_unmapVar_def S_mapVar_def)
qed

lemma S_unmapLit_mapLit:
  assumes "varmap_ok S" and "0 \<le> var l" and "var l < nMappedVars S"
  shows "S_unmapLit S (S_mapLit S l) = l"
  using S_unmapVar_mapVar [OF assms] by (simp add: S_unmapLit_def S_mapLit_def)

lemma varmap_ok_newSolver: "varmap_ok (newSolver b)"
  by (simp add: varmap_ok_def newSolver_def)

lemma varmap_ok_S_newVar:
  assumes "varmap_ok S"
  shows "varmap_ok (snd (S_newVar S))"
  using assms
  by (auto simp add: varmap_ok_def S_newVar_def Let_def nth_append nMappedVars_def less_Suc_eq)

text \<open>
  Claim C2. For every allocated external literal \<open>e\<close> of a solver \<open>S\<close>,
  \<^verbatim>\<open>externalLit(S, internalLit(S, e)) == e\<close>.
\<close>

theorem external_internal_roundtrip:
  assumes "varmap_ok S" and "allocated S e"
  shows "externalLit S (internalLit S e) = e"
  using assms S_unmapLit_mapLit [of S "toLit e"]
  by (simp add: externalLit_def internalLit_def allocated_def)

lemma varmap_ok_solver2: "varmap_ok solver2"
  by (simp add: varmap_ok_def solver2_def newSolver_def nMappedVars_def less_Suc_eq)

theorem external_internal_roundtrip_witness:
  "varmap_ok solver2 \<and> allocated solver2 3 \<and> internalLit solver2 3 = toLit 1 \<and>
   externalLit solver2 (internalLit solver2 3) = 3"
proof -
  have a: "allocated solver2 3"
    by (simp add: allocated_def solver2_def nMappedVars_def var_eq_div)
  have b: "internalLit solver2 3 = toLit 1"
    by (simp add: internalLit_def S_mapLit_def S_mapVar_def solver2_def var_eq_div sign_iff_odd mkLit_def)
  show ?thesis
    using external_internal_roundtrip [OF varmap_ok_solver2 a] varmap_ok_solver2 a b by simp
qed

lemma sign_internalLit: "sign (internalLit S e) \<longleftrightarrow> bit e 0"
proof -
  have "sign (toLit e) \<longleftrightarrow> bit e 0"
    by (simp add: sign_iff_odd bit_0)
  then show ?thesis
    by (simp add: internalLit_def S_mapLit_def)
qed

section \<open>Model queries\<close>

text \<open>
  Claim C10. \<^verbatim>\<open>getModel_Literal(S, lit)\<close> raises an error only when the literal's variable
  is negative or not allocated; for an allocated variable whose index is at or beyond
  the size of the stored model it returns 2 (unassigned); and for a literal with the
  sign bit set the value returned is the flip of the variable's model value (true and
  false exchanged, unassigned kept).
\<close>

theorem getModel_Literal_cases:
  "(let l = internalLit S lit in
     ((\<exists>e. getModel_Literal S lit = Inl e) \<longleftrightarrow> var l < 0 \<or> nVars S \<le> var l) \<and>
     (0 \<le> var l \<and> var l < nVars S \<and> int (length (model S)) \<le> var l \<longrightarrow>
        getModel_Literal S lit = Inr 2) \<and>
     (0 \<le> var l \<and> var l < nVars S \<and> var l < int (length (model S)) \<and> bit lit 0 \<longrightarrow>
        getModel_Literal S lit = Inr (toInt_lbool (flip_lbool (model S ! nat (var l))))))"
proof -
  have flip: "(if val = l_True then l_False else if val = l_False then l_True else val) = flip_lbool val" for val
    by (cases val) simp_all
  show ?thesis
    by (auto simp add: getModel_Literal_def Let_def flip sign_internalLit)
qed

theorem getModel_Literal_cases_witness:
  "getModel_Literal solver2m 3 = Inr 1 \<and> getModel_Literal solver2m 0 = Inr 2 \<and>
   (\<exists>e. getModel_Literal solver2m 4 = Inl e) \<and> (\<exists>e. getModel_Literal solver2m (-1) = Inl e)"
proof -
  have l3: "internalLit solver2m 3 = toLit 1" and l0: "internalLit solver2m 0 = toLit 2"
    and l4: "internalLit solver2m 4 = toLit 4" and l1: "internalLit solver2m (-1) = toLit (-1)"
    by (simp_all add: internalLit_def S_mapLit_def S_mapVar_def solver2m_def solver2_def
        var_eq_div sign_iff_odd mkLit_def)
  have s: "nVars solver2m = 2" "model solver2m = [l_True]"
    by (simp_all add: solver2m_def solver2_def)
  show ?thesis
    using getModel_Literal_cases [of solver2m 3] getModel_Literal_cases [of solver2m 0]
      getModel_Literal_cases [of solver2m 4] getModel_Literal_cases [of solver2m "-1"]
    by (simp add: l3 l0 l4 l1 s var_eq_div bit_0 Let_def)
qed

section \<open>Popcount\<close>

lemma popcount_args_negative:
  "\<exists>a \<in> set args. bit a 0 \<Longrightarrow> \<exists>msg. popcount_args S args = Inl (runtime_error msg)"
proof (induction args)
  case Nil
  then show ?case by simp
next
  case (Cons a args)
  show ?case
  proof (cases "bit a 0")
    case True
    then show ?thesis
      by (simp add: Let_def sign_internalLit api_errorf_def)
  next
    case False
    with Cons.prems have "\<exists>a \<in> set args. bit a 0"
      by simp
    then obtain msg where "popcount_args S args = Inl (runtime_error msg)"
      using Cons.IH by blast
    with False show ?thesis
      by (simp add: Let_def sign_internalLit)
  qed
qed

lemma popcount_args_positive:
  "\<forall>a \<in> set args. \<not> bit a 0 \<Longrightarrow>
   popcount_args S args = Inr (map (\<lambda>a. var (internalLit S a)) args)"
  by (induction args) (auto simp: Let_def sign_internalLit)

text \<open>
  Claim C7. A call \<^verbatim>\<open>bv_popcount(S, bv, args, n_args, resultID)\<close> in which some argument
  has its sign bit set (a negative literal) raises an error, and no popcount node is
  added to the bitvector theory; if all arguments are positive literals, a popcount
  node over their variables is created.
\<close>

theorem bv_popcount_cases:
  "((\<exists>a \<in> set args. bit a 0) \<longrightarrow>
      (\<exists>msg. bv_popcount S bv args resultID = (Inl (runtime_error msg), S, bv))) \<and>
   ((\<forall>a \<in> set args. \<not> bit a 0) \<longrightarrow>
      (\<exists>S'. bv_popcount S bv args resultID =
         (Inr (), S',
          bv\<lparr>popcounts := popcounts bv @
             [(internalBV bv resultID, map (\<lambda>a. var (internalLit S a)) args)]\<rparr>)))"
proof (intro conjI impI)
  assume "\<exists>a \<in> set args. bit a 0"
  then obtain msg where "popcount_args S args = Inl (runtime_error msg)"
    using popcount_args_negative by blast
  then show "\<exists>msg. bv_popcount S bv args resultID = (Inl (runtime_error msg), S, bv)"
    by (simp add: bv_popcount_def)
next
  assume "\<forall>a \<in> set args. \<not> bit a 0"
  then have "popcount_args S args = Inr (map (\<lambda>a. var (internalLit S a)) args)"
    by (rule popcount_args_positive)
  then show "\<exists>S'. bv_popcount S bv args resultID =
         (Inr (), S',
          bv\<lparr>popcounts := popcounts bv @
             [(internalBV bv resultID, map (\<lambda>a. var (internalLit S a)) args)]\<rparr>)"
    by (simp add: bv_popcount_def Let_def newPopCountBV_def)
qed

theorem bv_popcount_cases_witness:
  "(\<exists>msg. bv_popcount solver2 bv0 [0, 3] 5 = (Inl (runtime_error msg), solver2, bv0)) \<and>
   bv_popcount solver2 bv0 [0, 2] 5 = (Inr (), solver2, bv0\<lparr>popcounts := [(5, [1, 0])]\<rparr>)"
proof -
  have a: "\<exists>a \<in> set [0, 3 :: int]. bit a 0" and b: "\<forall>a \<in> set [0, 2 :: int]. \<not> bit a 0"
    by (simp_all add: bit_0)
  have l: "internalLit solver2 0 = toLit 2" "internalLit solver2 2 = toLit 0"
    by (simp_all add: internalLit_def S_mapLit_def S_mapVar_def solver2_def
        var_eq_div sign_iff_odd mkLit_def)
  have w: "write_out solver2 fmt as = solver2" for fmt as
    by (simp add: write_out_def solver2_def newSolver_def)
  from bv_popcount_cases [of "[0, 3]" solver2 bv0 5] a
  have 1: "\<exists>msg. bv_popcount solver2 bv0 [0, 3] 5 = (Inl (runtime_error msg), solver2, bv0)"
    by blast
  from bv_popcount_cases [of "[0, 2]" solver2 bv0 5] b
  obtain S' where "bv_popcount solver2 bv0 [0, 2] 5 =
      (Inr (), S', bv0\<lparr>popcounts := popcounts bv0 @
             [(internalBV bv0 5, map (\<lambda>a. var (internalLit solver2 a)) [0, 2])]\<rparr>)"
    by blast
  moreover have "snd (bv_popcount solver2 bv0 [0, 2] 5) = (solver2, snd (snd (bv_popcount solver2 bv0 [0, 2] 5)))"
    by (simp add: bv_popcount_def Let_def w split: sum.splits)
  ultimately have 2: "bv_popcount solver2 bv0 [0, 2] 5 = (Inr (), solver2, bv0\<lparr>popcounts := [(5, [1, 0])]\<rparr>)"
    by (simp add: l var_eq_div bv0_def internalBV_def mapBV_def)
  from 1 2 show ?thesis by blast
qed

section \<open>Named variables\<close>

lemma printable_nonspace_ascii_iff:
  "printable_nonspace_ascii c \<longleftrightarrow> isascii c \<and> isprint c \<and> \<not> isspace c"
  by (auto simp: printable_nonspace_ascii_def isascii_def isprint_def isspace_def)

lemma write_out_fields [simp]:
  "nVars (write_out S fmt as) = nVars S"
  "var_map (write_out S fmt as) = var_map S"
  "var_reverse_map (write_out S fmt as) = var_reverse_map S"
  "var_names (write_out S fmt as) = var_names S"
  "clauses (write_out S fmt as) = clauses S"
  "no_elimination (write_out S fmt as) = no_elimination S"
  "conflict (write_out S fmt as) = conflict S"
  "model (write_out S fmt as) = model S"
  by (simp_all add: write_out_def split: option.splits)

lemma newVar_fresh:
  assumes "varmap_ok S"
  shows "fst (newVar S) = nMappedVars S"
    and "internalVar (snd (newVar S)) (fst (newVar S)) = nVars S"
proof -
  from assms have len: "int (length (var_reverse_map S)) = nVars S"
    by (simp add: varmap_ok_def)
  then have n: "nat (nVars S) = length (var_reverse_map S)" "0 \<le> nVars S"
    by linarith+
  show 1: "fst (newVar S) = nMappedVars S"
    using n by (simp add: newVar_def S_newVar_def Let_def externalVar_def S_unmapVar_def)
  show "internalVar (snd (newVar S)) (fst (newVar S)) = nVars S"
    unfolding 1
    by (simp add: newVar_def S_newVar_def Let_def internalVar_def S_mapVar_def nMappedVars_def)
qed

lemma nVars_newVar: "nVars (snd (newVar S)) = nVars S + 1"
  by (simp add: newVar_def S_newVar_def Let_def)

lemma var_names_newVar: "var_names (snd (newVar S)) = var_names S"
  by (simp add: newVar_def S_newVar_def Let_def)

text \<open>
  Claim C6. For a call \<^verbatim>\<open>newNamedVar(S, name)\<close> with a non-empty name: if the name is
  already in use, or contains a character that is not printable non-whitespace ASCII,
  the call throws and the solver is unchanged (no variable is allocated); otherwise a
  fresh variable is allocated and bound to the name. With a null or empty name the
  call behaves exactly as \<^verbatim>\<open>newVar(S)\<close>.
\<close>

theorem newNamedVar_cases:
  "(name \<noteq> [] \<and> (S_hasVariable S name \<or> (\<exists>c \<in> set name. \<not> printable_nonspace_ascii c)) \<longrightarrow>
      (\<exists>msg. newNamedVar S (Some name) = (Inl (invalid_argument msg), S))) \<and>
   (name \<noteq> [] \<and> \<not> S_hasVariable S name \<and> (\<forall>c \<in> set name. printable_nonspace_ascii c) \<longrightarrow>
      (\<exists>S'. newNamedVar S (Some name) = (Inr (fst (newVar S)), S') \<and>
            nVars S' = nVars S + 1 \<and>
            var_names S' =
              (var_names S)(name \<mapsto> internalVar (snd (newVar S)) (fst (newVar S))) \<and>
            (varmap_ok S \<longrightarrow>
               fst (newVar S) = nMappedVars S \<and> var_names S' name = Some (nVars S)))) \<and>
   newNamedVar S None = (Inr (fst (newVar S)), snd (newVar S)) \<and>
   newNamedVar S (Some []) = (Inr (fst (newVar S)), snd (newVar S))"
proof (intro conjI impI)
  assume a: "name \<noteq> [] \<and> (S_hasVariable S name \<or> (\<exists>c \<in> set name. \<not> printable_nonspace_ascii c))"
  then show "\<exists>msg. newNamedVar S (Some name) = (Inl (invalid_argument msg), S)"
    by (auto simp: newNamedVar_def Let_def printable_nonspace_ascii_iff)
next
  assume a: "name \<noteq> [] \<and> \<not> S_hasVariable S name \<and> (\<forall>c \<in> set name. printable_nonspace_ascii c)"
  then have ok: "\<not> (\<exists>c \<in> set name. \<not> isascii c \<or> \<not> isprint c \<or> isspace c)"
    by (auto simp: printable_nonspace_ascii_iff)
  let ?v = "fst (newVar S)" and ?S1 = "snd (newVar S)"
  let ?S' = "setVariableName ?S1 ?v (Some name)"
  from a ok have r: "newNamedVar S (Some name) = (Inr ?v, ?S')"
    by (simp add: newNamedVar_def Let_def case_prod_beta)
  from a have n: "nVars ?S' = nVars S + 1"
    by (simp add: setVariableName_def S_setVariableName_def Let_def nVars_newVar)
  from a have m: "var_names ?S' = (var_names S)(name \<mapsto> internalVar ?S1 ?v)"
    by (simp add: setVariableName_def S_setVariableName_def Let_def var_names_newVar)
  have "varmap_ok S \<longrightarrow> ?v = nMappedVars S \<and> var_names ?S' name = Some (nVars S)"
  proof
    assume "varmap_ok S"
    then have "?v = nMappedVars S" "internalVar ?S1 ?v = nVars S"
      by (rule newVar_fresh)+
    with m show "?v = nMappedVars S \<and> var_names ?S' name = Some (nVars S)"
      by simp
  qed
  with r n m show "\<exists>S'. newNamedVar S (Some name) = (Inr (fst (newVar S)), S') \<and>
            nVars S' = nVars S + 1 \<and>
            var_names S' =
              (var_names S)(name \<mapsto> internalVar (snd (newVar S)) (fst (newVar S))) \<and>
            (varmap_ok S \<longrightarrow>
               fst (newVar S) = nMappedVars S \<and> var_names S' name = Some (nVars S))"
    by blast
next
  show "newNamedVar S None = (Inr (fst (newVar S)), snd (newVar S))"
    by (simp add: newNamedVar_def case_prod_beta)
next
  show "newNamedVar S (Some []) = (Inr (fst (newVar S)), snd (newVar S))"
    by (simp add: newNamedVar_def case_prod_beta)
qed

lemma varmap_ok_solver2n: "varmap_ok solver2n"
  by (simp add: varmap_ok_def solver2n_def solver2_def newSolver_def nMappedVars_def less_Suc_eq)

theorem newNamedVar_cases_witness:
  "(\<exists>msg. newNamedVar solver2n (Some ''x'') = (Inl (invalid_argument msg), solver2n)) \<and>
   (\<exists>msg. newNamedVar solver2n (Some ''a b'') = (Inl (invalid_argument msg), solver2n)) \<and>
   (\<exists>S'. newNamedVar solver2n (Some ''y'') = (Inr 2, S') \<and> nVars S' = 3 \<and>
      var_names S' ''y'' = Some 2)"
proof -
  have x: "''x'' \<noteq> [] \<and> (S_hasVariable solver2n ''x'' \<or> (\<exists>c \<in> set ''x''. \<not> printable_nonspace_ascii c))"
    by (simp add: S_hasVariable_def solver2n_def)
  have ab: "''a b'' \<noteq> [] \<and> (S_hasVariable solver2n ''a b'' \<or> (\<exists>c \<in> set ''a b''. \<not> printable_nonspace_ascii c))"
    by (simp add: printable_nonspace_ascii_def)
  have y: "''y'' \<noteq> [] \<and> \<not> S_hasVariable solver2n ''y'' \<and> (\<forall>c \<in> set ''y''. printable_nonspace_ascii c)"
    by (simp add: printable_nonspace_ascii_def S_hasVariable_def solver2n_def)
  have n: "nVars solver2n = 2" "nMappedVars solver2n = 2"
    by (simp_all add: solver2n_def solver2_def nMappedVars_def)
  from newNamedVar_cases [of "''x''" solver2n] x
  have 1: "\<exists>msg. newNamedVar solver2n (Some ''x'') = (Inl (invalid_argument msg), solver2n)"
    by blast
  from newNamedVar_cases [of "''a b''" solver2n] ab
  have 2: "\<exists>msg. newNamedVar solver2n (Some ''a b'') = (Inl (invalid_argument msg), solver2n)"
    by blast
  from newNamedVar_cases [of "''y''" solver2n] y varmap_ok_solver2n
  have 3: "\<exists>S'. newNamedVar solver2n (Some ''y'') = (Inr 2, S') \<and> nVars S' = 3 \<and>
      var_names S' ''y'' = Some 2"
    by (auto simp: n)
  from 1 2 3 show ?thesis by blast
qed

section \<open>Reachability predicates\<close>

lemma externalLit_write_out [simp]: "externalLit (write_out S fmt as) l = externalLit S l"
  by (simp add: externalLit_def S_unmapLit_def S_unmapVar_def)

lemma G_reaches_posted:
  assumes "reach_lits G (u, v, k) = Some l"
  shows "G_reaches S G u v outer k = (l, S, G)"
  using assms by (simp add: G_reaches_def)

lemma G_reaches_key:
  "reach_lits (snd (snd (G_reaches S G u v outer k))) (u, v, k) = Some (fst (G_reaches S G u v outer k))"
  by (simp add: G_reaches_def Let_def case_prod_beta split: option.splits)

lemma G_reaches_dom:
  "dom (reach_lits (snd (snd (G_reaches S G u v outer k)))) = insert (u, v, k) (dom (reach_lits G))"
  by (auto simp add: G_reaches_def Let_def case_prod_beta split: option.splits)

lemma reaches_eq:
  "reaches S G u v =
     (let r = G_reaches S G u v var_Undef (-1);
          S' = (if G_hasReach G u v (-1) then fst (snd r)
                else write_out (fst (snd r)) ''reach %d %d %d %d\<newline>''
                       [ArgInt (getGraphID (snd (snd r))), ArgInt u, ArgInt v,
                        ArgInt (dimacs_S (fst (snd r)) (fst r))])
      in (externalLit (fst (snd r)) (fst r), S', snd (snd r)))"
  by (simp add: reaches_def Let_def case_prod_beta)

lemma reaches_posted:
  assumes "reach_lits G (u, v, -1) = Some l"
  shows "reaches S G u v = (externalLit S l, S, G)"
  using assms by (simp add: reaches_def G_hasReach_def G_reaches_def)

text \<open>
  Claim C4, as stated: the key of \<^verbatim>\<open>shortestPathUnweighted_lt_const(u, v, steps)\<close> is
  \<open>(u, v, steps - 1)\<close>. For the least \<^verbatim>\<open>int\<close> the difference is no \<^verbatim>\<open>int\<close>: the predicate
  is posted under the greatest \<^verbatim>\<open>int\<close>.
\<close>

theorem shortestPathUnweighted_key_counterexample:
  "dom (reach_lits (snd (snd
     (shortestPathUnweighted_lt_const (newSolver False) graph0 0 1 (- 2147483648))))) =
     {(0, 1, 2147483647)} \<and>
   (0, 1, - 2147483648 - 1) \<notin> dom (reach_lits (snd (snd
     (shortestPathUnweighted_lt_const (newSolver False) graph0 0 1 (- 2147483648)))))"
  by (simp add: shortestPathUnweighted_lt_const_def G_hasReach_def G_reaches_def graph0_def
      Let_def case_prod_beta int32_def)

text \<open>
  Claim C4, amended. Posting the same reachability predicate twice is idempotent: for
  every graph \<open>G\<close> and nodes \<open>u\<close>, \<open>v\<close>, a second call of \<^verbatim>\<open>reaches(S, G, u, v)\<close> returns the
  same external literal as the first and writes no second trace line (it leaves solver
  and graph as they are); the key under which \<^verbatim>\<open>reaches(u, v)\<close> posts is \<open>(u, v, -1)\<close>,
  and the key of \<^verbatim>\<open>shortestPathUnweighted_lt_const(u, v, steps)\<close> is \<open>(u, v, steps - 1)\<close>
  with the difference taken in \<^verbatim>\<open>int\<close>: it is \<open>steps - 1\<close> for every \<^verbatim>\<open>int\<close> but the least.
\<close>

theorem reaches_idempotent:
  "(let (e1, S1, G1) = reaches S G u v;
        (e2, S2, G2) = reaches S1 G1 u v
    in e2 = e1 \<and> S2 = S1 \<and> G2 = G1 \<and>
       outfile (external_data S2) = outfile (external_data S1) \<and>
       (\<exists>l. reach_lits G1 (u, v, -1) = Some l \<and> e1 = externalLit S1 l)) \<and>
   dom (reach_lits (snd (snd (reaches S G u v)))) = insert (u, v, -1) (dom (reach_lits G)) \<and>
   dom (reach_lits (snd (snd (shortestPathUnweighted_lt_const S G u v steps)))) =
     insert (u, v, int32 (steps - 1)) (dom (reach_lits G)) \<and>
   (- (2 ^ 31) < steps \<and> steps < 2 ^ 31 \<longrightarrow>
      dom (reach_lits (snd (snd (shortestPathUnweighted_lt_const S G u v steps)))) =
        insert (u, v, steps - 1) (dom (reach_lits G)))"
proof (intro conjI impI)
  let ?r = "G_reaches S G u v var_Undef (-1)"
  let ?l = "fst ?r" and ?G1 = "snd (snd ?r)"
  let ?S1 = "fst (snd (reaches S G u v))"
  have G1: "snd (snd (reaches S G u v)) = ?G1" and e1: "fst (reaches S G u v) = externalLit ?S1 ?l"
    by (simp_all add: reaches_eq Let_def)
  have key: "reach_lits ?G1 (u, v, -1) = Some ?l"
    by (rule G_reaches_key)
  have second: "reaches ?S1 ?G1 u v = (externalLit ?S1 ?l, ?S1, ?G1)"
    using key by (rule reaches_posted)
  show "let (e1, S1, G1) = reaches S G u v;
        (e2, S2, G2) = reaches S1 G1 u v
    in e2 = e1 \<and> S2 = S1 \<and> G2 = G1 \<and>
       outfile (external_data S2) = outfile (external_data S1) \<and>
       (\<exists>l. reach_lits G1 (u, v, -1) = Some l \<and> e1 = externalLit S1 l)"
    using second key e1 G1 by (simp add: case_prod_beta)
  show "dom (reach_lits (snd (snd (reaches S G u v)))) = insert (u, v, -1) (dom (reach_lits G))"
    unfolding G1 by (rule G_reaches_dom)
  show wrapped: "dom (reach_lits (snd (snd (shortestPathUnweighted_lt_const S G u v steps)))) =
     insert (u, v, int32 (steps - 1)) (dom (reach_lits G))"
    using G_reaches_dom [of S G u v var_Undef "int32 (steps - 1)"]
    by (simp add: shortestPathUnweighted_lt_const_def Let_def case_prod_beta)
  assume "- (2 ^ 31) < steps \<and> steps < 2 ^ 31"
  then have "int32 (steps - 1) = steps - 1"
    by (intro int32_id) simp_all
  with wrapped
  show "dom (reach_lits (snd (snd (shortestPathUnweighted_lt_const S G u v steps)))) =
        insert (u, v, steps - 1) (dom (reach_lits G))"
    by simp
qed

theorem reaches_idempotent_witness:
  "- (2 ^ 31) < (3::int) \<and> (3::int) < 2 ^ 31 \<and>
   dom (reach_lits (snd (snd (shortestPathUnweighted_lt_const (newSolver False) graph0 0 1 3)))) =
     {(0, 1, 2)} \<and>
   dom (reach_lits (snd (snd (reaches (newSolver False) graph0 0 1)))) = {(0, 1, - 1)}"
proof -
  have r: "- (2 ^ 31) < (3::int) \<and> (3::int) < 2 ^ 31"
    by simp
  have d: "dom (reach_lits graph0) = {}"
    by (simp add: graph0_def)
  from reaches_idempotent [of "newSolver False" graph0 0 1 3] r
  have "dom (reach_lits (snd (snd (shortestPathUnweighted_lt_const (newSolver False) graph0 0 1 3)))) =
          insert (0, 1, 3 - 1) (dom (reach_lits graph0))"
    and "dom (reach_lits (snd (snd (reaches (newSolver False) graph0 0 1)))) =
          insert (0, 1, - 1) (dom (reach_lits graph0))"
    by blast+
  with r d show ?thesis
    by simp
qed

text \<open>On a new solver with an output file, the first call writes the trace line and
  the second writes nothing.\<close>

lemma reaches_example:
  "(let (e1, S1, G1) = reaches (newSolver True) graph0 0 3;
        (e2, S2, G2) = reaches S1 G1 0 3
    in e1 = 0 \<and> e2 = 0 \<and>
       outfile (external_data S1) = Some [Some ''reach 0 0 3 1\<newline>''] \<and>
       outfile (external_data S2) = Some [Some ''reach 0 0 3 1\<newline>''])"
  by (simp add: reaches_def G_hasReach_def G_reaches_def graph0_def newSolver_def S_newVar_def
      Let_def var_Undef_def nMappedVars_def write_out_def getGraphID_def dimacs_S_def
      S_unmapLit_def S_unmapVar_def externalLit_def mkLit_def var_eq_div sign_iff_odd
      vfprintf_def dec_int_def digit_char_def)

section \<open>The trace line of the spanning-tree predicate\<close>

text \<open>The format of \<^verbatim>\<open>minimumSpanningTree_leq\<close> has six conversions and the call passes
  three arguments, the third an \<^verbatim>\<open>int64_t\<close> under \<^verbatim>\<open>%d\<close>: no output is defined.\<close>

lemma vfprintf_mst_weight_leq_format:
  "vfprintf mst_weight_leq_format [ArgInt gid, ArgInt l, ArgLong k] = None"
  by (simp add: vfprintf_def mst_weight_leq_format_def PRId64_def)

lemma minimumSpanningTree_leq_write:
  assumes "outfile (external_data S) = Some out"
  shows "outfile (external_data (fst (snd (minimumSpanningTree_leq S G weight)))) =
           Some (out @ [None])"
  using assms
  by (simp add: minimumSpanningTree_leq_def newVar_def S_newVar_def Let_def
      write_out_def vfprintf_mst_weight_leq_format)

text \<open>
  Claim C9. When an output file is set, \<^verbatim>\<open>minimumSpanningTree_leq(S, G, weight)\<close> should
  write the trace line \<^verbatim>\<open>mst_weight_leq <gid> <lit> <k>\<close>: the graph id, the DIMACS form
  of the fresh predicate literal and the weight. On a new solver with an output file,
  the graph 0 and the weight 5 the line would be \<^verbatim>\<open>mst_weight_leq 0 1 5\<close>, which is what
  the format of the trace grammar prints; the write that the function makes has no
  defined text.
\<close>

theorem minimumSpanningTree_leq_trace:
  "outfile (external_data (fst (snd (minimumSpanningTree_leq (newSolver True) graph0 5)))) =
     Some [None] \<and>
   vfprintf mst_weight_leq_grammar [ArgInt 0, ArgInt 1, ArgLong 5] =
     Some ''mst_weight_leq 0 1 5\<newline>'' \<and>
   fst (minimumSpanningTree_leq (newSolver True) graph0 5) = 0"
proof (intro conjI)
  have "outfile (external_data (newSolver True)) = Some []"
    by (simp add: newSolver_def)
  from minimumSpanningTree_leq_write [OF this]
  show "outfile (external_data (fst (snd (minimumSpanningTree_leq (newSolver True) graph0 5)))) =
     Some [None]"
    by simp
  show "vfprintf mst_weight_leq_grammar [ArgInt 0, ArgInt 1, ArgLong 5] =
     Some ''mst_weight_leq 0 1 5\<newline>''"
    by (simp add: vfprintf_def mst_weight_leq_grammar_def PRId64_def dec_int_def digit_char_def)
  show "fst (minimumSpanningTree_leq (newSolver True) graph0 5) = 0"
    by (simp add: minimumSpanningTree_leq_def newVar_def S_newVar_def Let_def newSolver_def
      externalLit_def S_unmapLit_def S_unmapVar_def
      externalVar_def nMappedVars_def mkLit_def var_eq_div sign_iff_odd)
qed

section \<open>Equality of bitvectors\<close>

lemma S_mapVar_unmapVar:
  assumes "varmap_ok S" and "0 \<le> v" and "v < nVars S"
  shows "S_mapVar S (S_unmapVar S v) = v"
proof -
  from assms(1) have "int (length (var_reverse_map S)) = nVars S"
    by (simp add: varmap_ok_def)
  with assms(2,3) have lt: "nat v < length (var_reverse_map S)"
    by linarith
  with assms(1) have e: "0 \<le> var_reverse_map S ! nat v" "var_reverse_map S ! nat v < nMappedVars S"
    and lead: "var_map S ! nat (var_reverse_map S ! nat v) = int (nat v)"
    by (simp_all add: varmap_ok_def)
  from e have "nat (var_reverse_map S ! nat v) < length (var_map S)"
    by (simp add: nMappedVars_def)
  with e lead lt assms(2) show ?thesis
    by (simp add: S_unmapVar_def S_mapVar_def)
qed

lemma internalLit_externalLit:
  assumes "varmap_ok S" and "0 \<le> var l" and "var l < nVars S"
  shows "internalLit S (externalLit S l) = l"
  using S_mapVar_unmapVar [OF assms]
  by (simp add: internalLit_def externalLit_def S_mapLit_def S_unmapLit_def)

lemma varmap_ok_write_out [simp]: "varmap_ok (write_out S fmt as) = varmap_ok S"
  by (simp add: varmap_ok_def nMappedVars_def)

lemma internalLit_write_out [simp]: "internalLit (write_out S fmt as) e = internalLit S e"
  by (simp add: internalLit_def S_mapLit_def S_mapVar_def)

lemma S_newVar_fields:
  "fst (S_newVar S) = nVars S"
  "nVars (snd (S_newVar S)) = nVars S + 1"
  "clauses (snd (S_newVar S)) = clauses S"
  by (simp_all add: S_newVar_def Let_def)

lemma varmap_ok_nVars_nonneg: "varmap_ok S \<Longrightarrow> 0 \<le> nVars S"
  by (auto simp: varmap_ok_def)

lemma clauses_bit_implications:
  "clauses (bit_implications S bv c bits1 bits2) =
     clauses S @ concat (map2 (\<lambda>x y. [ [toSolver bv x, neg (toSolver bv y), neg c],
                                        [neg (toSolver bv x), toSolver bv y, neg c] ]) bits1 bits2)"
  by (induction S bv c bits1 bits2 rule: bit_implications.induct)
     (simp_all add: Let_def S_addClause_def)

lemma varmap_bit_implications [simp]:
  "var_reverse_map (bit_implications S bv c bits1 bits2) = var_reverse_map S"
  by (induction S bv c bits1 bits2 rule: bit_implications.induct)
     (simp_all add: Let_def S_addClause_def)


lemma newBVComparison_bv_geq_result:
  assumes "varmap_ok S"
  shows "\<exists>S1. newBVComparison_bv_geq S bv x y =
            (externalLit S1 (mkLit (nVars S) False), S1,
             bv\<lparr>comparisons := comparisons bv @ [(geq, internalBV bv x, y, mkLit (nVars S) False)]\<rparr>) \<and>
          varmap_ok S1 \<and> nVars S1 = nVars S + 1 \<and> clauses S1 = clauses S"
  using varmap_ok_S_newVar [OF assms]
  by (simp add: newBVComparison_bv_geq_def newComparisonBV_def toSolver_def Let_def
      case_prod_beta S_newVar_fields)

lemma newBVComparison_bv_gt_result:
  assumes "varmap_ok S"
  shows "\<exists>S1. newBVComparison_bv_gt S bv x y =
            (externalLit S1 (mkLit (nVars S) False), S1,
             bv\<lparr>comparisons := comparisons bv @ [(gt, internalBV bv x, y, mkLit (nVars S) False)]\<rparr>) \<and>
          varmap_ok S1 \<and> nVars S1 = nVars S + 1 \<and> clauses S1 = clauses S"
  using varmap_ok_S_newVar [OF assms]
  by (simp add: newBVComparison_bv_gt_def newComparisonBV_def toSolver_def Let_def
      case_prod_beta S_newVar_fields)

lemma newBVComparison_bv_eq_result:
  fixes S :: SimpSolver and bv :: BVTheorySolver and x y :: int
  assumes ok: "varmap_ok S"
  defines "la \<equiv> mkLit (nVars S) False"
    and "lb \<equiv> mkLit (nVars S + 1) False"
    and "c \<equiv> mkLit (nVars S + 2) False"
    and "bits1 \<equiv> getBits bv (internalBV bv x)"
    and "bits2 \<equiv> getBits bv (internalBV bv y)"
  shows "\<exists>S'. newBVComparison_bv_eq S bv x y =
            (externalLit S' c, S',
             bv\<lparr>comparisons := comparisons bv @
                [(geq, internalBV bv x, y, la), (gt, internalBV bv x, y, lb)]\<rparr>) \<and>
          clauses S' = clauses S @ [ [la, neg c], [neg lb, neg c], [c, neg la, lb] ] @
            (if length bits1 = length bits2
             then concat (map2 (\<lambda>p q. [ [toSolver bv p, neg (toSolver bv q), neg c],
                                         [neg (toSolver bv p), toSolver bv q, neg c] ]) bits1 bits2)
             else [])"
proof -
  obtain S1 where g: "newBVComparison_bv_geq S bv x y =
            (externalLit S1 la, S1,
             bv\<lparr>comparisons := comparisons bv @ [(geq, internalBV bv x, y, la)]\<rparr>)"
    and ok1: "varmap_ok S1" and n1: "nVars S1 = nVars S + 1" and c1: "clauses S1 = clauses S"
    unfolding la_def using newBVComparison_bv_geq_result [OF ok] by blast
  let ?bv1 = "bv\<lparr>comparisons := comparisons bv @ [(geq, internalBV bv x, y, la)]\<rparr>"
  obtain S2 where t: "newBVComparison_bv_gt S1 ?bv1 x y =
            (externalLit S2 lb, S2,
             ?bv1\<lparr>comparisons := comparisons ?bv1 @ [(gt, internalBV ?bv1 x, y, lb)]\<rparr>)"
    and ok2: "varmap_ok S2" and n2: "nVars S2 = nVars S1 + 1" and c2: "clauses S2 = clauses S1"
    unfolding lb_def n1 [symmetric] using newBVComparison_bv_gt_result [OF ok1] by blast
  have nn: "0 \<le> nVars S"
    using ok by (rule varmap_ok_nVars_nonneg)
  have a: "internalLit S1 (externalLit S1 la) = la"
    using ok1 nn n1 by (intro internalLit_externalLit) (simp_all add: la_def)
  have b: "internalLit S2 (externalLit S2 lb) = lb"
    using ok2 nn n1 n2 by (intro internalLit_externalLit) (simp_all add: lb_def)
  have v: "nVars S2 = nVars S + 2"
    by (simp add: n1 n2)
  have ib: "internalBV ?bv1 = internalBV bv"
    by (simp add: internalBV_def mapBV_def fun_eq_iff)
  have gb: "getBits (bv\<lparr>comparisons := cs\<rparr>) = getBits bv" for cs
    by (simp add: getBits_def fun_eq_iff)
  have ib2: "internalBV (bv\<lparr>comparisons := cs\<rparr>) = internalBV bv" for cs
    by (simp add: internalBV_def mapBV_def fun_eq_iff)
  show ?thesis
    by (simp add: newBVComparison_bv_eq_def g t Let_def case_prod_beta a b v c_def [symmetric]
        S_addClause_def S_disableElimination_def clauses_bit_implications S_newVar_fields
        c1 c2 gb ib ib2 toSolver_def bits1_def [symmetric] bits2_def [symmetric])
qed


lemma lit_true_neg [simp]: "lit_true \<sigma> (neg l) \<longleftrightarrow> \<not> lit_true \<sigma> l"
  by (auto simp: lit_true_def)

lemma bit_clauses_member:
  assumes "length ps = length qs" and "i < length ps"
  shows "[F (ps ! i), neg (F (qs ! i)), neg c] \<in>
           set (concat (map2 (\<lambda>p q. [ [F p, neg (F q), neg c], [neg (F p), F q, neg c] ]) ps qs))"
    and "[neg (F (ps ! i)), F (qs ! i), neg c] \<in>
           set (concat (map2 (\<lambda>p q. [ [F p, neg (F q), neg c], [neg (F p), F q, neg c] ]) ps qs))"
proof -
  from assms have "(ps ! i, qs ! i) \<in> set (zip ps qs)"
    by (auto simp: set_zip)
  then show "[F (ps ! i), neg (F (qs ! i)), neg c] \<in>
           set (concat (map2 (\<lambda>p q. [ [F p, neg (F q), neg c], [neg (F p), F q, neg c] ]) ps qs))"
    and "[neg (F (ps ! i)), F (qs ! i), neg c] \<in>
           set (concat (map2 (\<lambda>p q. [ [F p, neg (F q), neg c], [neg (F p), F q, neg c] ]) ps qs))"
    by force+
qed

text \<open>What \<^verbatim>\<open>newBVComparison_bv_eq(S, bv, bvID, compareID)\<close> posts. The literal \<open>c\<close>
  returned is true, in every assignment that satisfies the clauses of the solver,
  exactly when the literal of the comparison \<open>\<ge>\<close> is true and the literal of the
  comparison \<open>>\<close> is false. Both comparisons are between the bitvector
  \<^verbatim>\<open>internalBV(bv, bvID)\<close> and the bitvector \<^verbatim>\<open>compareID\<close>, which the function passes on as it
  is. And whenever the bitvectors \<^verbatim>\<open>internalBV(bv, bvID)\<close> and
  \<^verbatim>\<open>internalBV(bv, compareID)\<close> have the same number of explicit bit literals, clauses are
  added that force their bits to agree when \<open>c\<close> is true.\<close>

lemma newBVComparison_bv_eq_posts:
  assumes ok: "varmap_ok S"
    and call: "newBVComparison_bv_eq S bv bvID compareID = (e, S', bv')"
  shows "\<exists>a b c.
     e = externalLit S' c \<and>
     comparisons bv' = comparisons bv @
       [(geq, internalBV bv bvID, compareID, a), (gt, internalBV bv bvID, compareID, b)] \<and>
     (\<forall>\<sigma>. satisfies \<sigma> S' \<longrightarrow> (lit_true \<sigma> c \<longleftrightarrow> lit_true \<sigma> a \<and> \<not> lit_true \<sigma> b)) \<and>
     (\<forall>\<sigma> \<beta>. satisfies \<sigma> S' \<and> comparisons_hold \<sigma> \<beta> bv' \<longrightarrow>
        (lit_true \<sigma> c \<longleftrightarrow>
           \<beta> (internalBV bv bvID) \<ge> \<beta> compareID \<and> \<beta> (internalBV bv bvID) \<le> \<beta> compareID)) \<and>
     (let bits1 = getBits bv (internalBV bv bvID);
          bits2 = getBits bv (internalBV bv compareID)
      in length bits1 = length bits2 \<longrightarrow>
           (\<forall>i < length bits1.
              [toSolver bv (bits1 ! i), neg (toSolver bv (bits2 ! i)), neg c] \<in> set (clauses S') \<and>
              [neg (toSolver bv (bits1 ! i)), toSolver bv (bits2 ! i), neg c] \<in> set (clauses S')) \<and>
           (\<forall>\<sigma>. satisfies \<sigma> S' \<and> lit_true \<sigma> c \<longrightarrow>
              (\<forall>i < length bits1.
                 lit_true \<sigma> (toSolver bv (bits1 ! i)) \<longleftrightarrow> lit_true \<sigma> (toSolver bv (bits2 ! i)))))"
proof -
  define a where "a = mkLit (nVars S) False"
  define b where "b = mkLit (nVars S + 1) False"
  define c where "c = mkLit (nVars S + 2) False"
  define bits1 where "bits1 = getBits bv (internalBV bv bvID)"
  define bits2 where "bits2 = getBits bv (internalBV bv compareID)"
  define bitcls where "bitcls =
     concat (map2 (\<lambda>p q. [ [toSolver bv p, neg (toSolver bv q), neg c],
                            [neg (toSolver bv p), toSolver bv q, neg c] ]) bits1 bits2)"
  from newBVComparison_bv_eq_result [OF ok, of bv bvID compareID] call
  have e: "e = externalLit S' c"
    and bv': "bv' = bv\<lparr>comparisons := comparisons bv @
                [(geq, internalBV bv bvID, compareID, a), (gt, internalBV bv bvID, compareID, b)]\<rparr>"
    and cl: "clauses S' = clauses S @ [ [a, neg c], [neg b, neg c], [c, neg a, b] ] @
            (if length bits1 = length bits2 then bitcls else [])"
    by (auto simp: a_def b_def c_def bits1_def bits2_def bitcls_def)
  have core: "lit_true \<sigma> c \<longleftrightarrow> lit_true \<sigma> a \<and> \<not> lit_true \<sigma> b" if "satisfies \<sigma> S'" for \<sigma>
  proof -
    from that cl have "clause_true \<sigma> [a, neg c]" "clause_true \<sigma> [neg b, neg c]"
      "clause_true \<sigma> [c, neg a, b]"
      by (simp_all add: satisfies_def)
    then show ?thesis
      by (auto simp: clause_true_def)
  qed
  have sem: "lit_true \<sigma> c \<longleftrightarrow>
           \<beta> (internalBV bv bvID) \<ge> \<beta> compareID \<and> \<beta> (internalBV bv bvID) \<le> \<beta> compareID"
    if "satisfies \<sigma> S' \<and> comparisons_hold \<sigma> \<beta> bv'" for \<sigma> \<beta>
  proof -
    from that bv' have "lit_true \<sigma> a \<longleftrightarrow> compare geq (\<beta> (internalBV bv bvID)) (\<beta> compareID)"
      and "lit_true \<sigma> b \<longleftrightarrow> compare gt (\<beta> (internalBV bv bvID)) (\<beta> compareID)"
      by (simp_all add: comparisons_hold_def)
    with core [of \<sigma>] that show ?thesis
      by auto
  qed
  have bits: "[toSolver bv (bits1 ! i), neg (toSolver bv (bits2 ! i)), neg c] \<in> set (clauses S') \<and>
              [neg (toSolver bv (bits1 ! i)), toSolver bv (bits2 ! i), neg c] \<in> set (clauses S')"
    if "length bits1 = length bits2" and "i < length bits1" for i
    using bit_clauses_member [OF that, of "toSolver bv" c] that(1)
    by (simp add: cl bitcls_def)
  have bitsem: "lit_true \<sigma> (toSolver bv (bits1 ! i)) \<longleftrightarrow> lit_true \<sigma> (toSolver bv (bits2 ! i))"
    if "length bits1 = length bits2" and "satisfies \<sigma> S' \<and> lit_true \<sigma> c" and "i < length bits1"
    for \<sigma> i
  proof -
    from bits [OF that(1,3)] that(2)
    have "clause_true \<sigma> [toSolver bv (bits1 ! i), neg (toSolver bv (bits2 ! i)), neg c]"
      and "clause_true \<sigma> [neg (toSolver bv (bits1 ! i)), toSolver bv (bits2 ! i), neg c]"
      by (simp_all add: satisfies_def)
    with that(2) show ?thesis
      by (auto simp: clause_true_def)
  qed
  from e bv' core sem bits bitsem show ?thesis
    unfolding Let_def bits1_def [symmetric] bits2_def [symmetric]
    by (intro exI [of _ a] exI [of _ b] exI [of _ c]) (simp; blast)
qed


text \<open>The call on the solver \<open>solver2\<close> and the bitvectors 0 and 1 of \<open>bv_bits2\<close>.\<close>

lemma eq_call:
  "newBVComparison_bv_eq solver2 bv_bits2 0 1 =
     (8,
      solver2\<lparr>nVars := 5, var_map := [1, 0, 2, 3, 4], var_reverse_map := [1, 0, 2, 3, 4],
        no_elimination := [4],
        clauses := [ [toLit 4, toLit 9], [toLit 7, toLit 9], [toLit 8, toLit 5, toLit 6],
                    [toLit 0, toLit 3, toLit 9], [toLit 1, toLit 2, toLit 9] ]\<rparr>,
      bv_bits2\<lparr>comparisons := [(geq, 0, 1, toLit 4), (gt, 0, 1, toLit 6)]\<rparr>)"
  by (simp add: newBVComparison_bv_eq_def newBVComparison_bv_geq_def newBVComparison_bv_gt_def
      newComparisonBV_def S_newVar_def Let_def solver2_def newSolver_def bv_bits2_def bv0_def
      write_out_def toSolver_def internalBV_def mapBV_def getBits_def nMappedVars_def
      externalLit_def internalLit_def S_mapLit_def S_unmapLit_def S_mapVar_def S_unmapVar_def
      mkLit_def neg_def var_eq_div sign_iff_odd S_addClause_def S_disableElimination_def)

lemma newBVComparison_bv_eq_example:
  "varmap_ok solver2 \<and>
   (\<exists>S' bv' c. newBVComparison_bv_eq solver2 bv_bits2 0 1 = (8, S', bv') \<and>
      externalLit S' c = 8 \<and> satisfies sigma_eq S' \<and> comparisons_hold sigma_eq beta_eq bv' \<and>
      lit_true sigma_eq c \<and> lit_true sigma_eq (toLit 0) = lit_true sigma_eq (toLit 2))"
proof -
  let ?S' = "solver2\<lparr>nVars := 5, var_map := [1, 0, 2, 3, 4], var_reverse_map := [1, 0, 2, 3, 4],
        no_elimination := [4],
        clauses := [ [toLit 4, toLit 9], [toLit 7, toLit 9], [toLit 8, toLit 5, toLit 6],
                    [toLit 0, toLit 3, toLit 9], [toLit 1, toLit 2, toLit 9] ]\<rparr>"
  let ?bv' = "bv_bits2\<lparr>comparisons := [(geq, 0, 1, toLit 4), (gt, 0, 1, toLit 6)]\<rparr>"
  have sat: "satisfies sigma_eq ?S'"
    by (simp add: satisfies_def clause_true_def lit_true_def sigma_eq_def var_eq_div sign_iff_odd)
  have hold: "comparisons_hold sigma_eq beta_eq ?bv'"
    by (simp add: comparisons_hold_def lit_true_def sigma_eq_def beta_eq_def var_eq_div sign_iff_odd)
  from newBVComparison_bv_eq_posts [OF varmap_ok_solver2 eq_call]
  obtain c where c: "8 = externalLit ?S' c"
    and sem: "\<forall>\<sigma> \<beta>. satisfies \<sigma> ?S' \<and> comparisons_hold \<sigma> \<beta> ?bv' \<longrightarrow>
        (lit_true \<sigma> c \<longleftrightarrow>
           \<beta> (internalBV bv_bits2 0) \<ge> \<beta> 1 \<and> \<beta> (internalBV bv_bits2 0) \<le> \<beta> 1)"
    by blast
  from sem sat hold have "lit_true sigma_eq c"
    by (simp add: beta_eq_def)
  moreover have "lit_true sigma_eq (toLit 0) = lit_true sigma_eq (toLit 2)"
    by (simp add: lit_true_def sigma_eq_def var_eq_div sign_iff_odd)
  ultimately show ?thesis
    using varmap_ok_solver2 eq_call sat hold c by auto
qed

text \<open>Where the theory does not rename the second bitvector, the literal returned is true
  exactly when the two bitvectors are equal.\<close>

lemma newBVComparison_bv_eq_not_renamed:
  assumes "varmap_ok S"
    and "newBVComparison_bv_eq S bv bvID compareID = (e, S', bv')"
    and "internalBV bv compareID = compareID"
  shows "\<exists>c. e = externalLit S' c \<and>
     (\<forall>\<sigma> \<beta>. satisfies \<sigma> S' \<and> comparisons_hold \<sigma> \<beta> bv' \<longrightarrow>
        (lit_true \<sigma> c \<longleftrightarrow> \<beta> (internalBV bv bvID) = \<beta> (internalBV bv compareID)))"
proof -
  from newBVComparison_bv_eq_posts [OF assms(1,2)]
  obtain c where e: "e = externalLit S' c"
    and sem: "\<forall>\<sigma> \<beta>. satisfies \<sigma> S' \<and> comparisons_hold \<sigma> \<beta> bv' \<longrightarrow>
        (lit_true \<sigma> c \<longleftrightarrow>
           \<beta> (internalBV bv bvID) \<ge> \<beta> compareID \<and> \<beta> (internalBV bv bvID) \<le> \<beta> compareID)"
    by blast
  have "lit_true \<sigma> c \<longleftrightarrow> \<beta> (internalBV bv bvID) = \<beta> (internalBV bv compareID)"
    if "satisfies \<sigma> S' \<and> comparisons_hold \<sigma> \<beta> bv'" for \<sigma> \<beta>
  proof -
    from sem that have "lit_true \<sigma> c \<longleftrightarrow>
        \<beta> (internalBV bv bvID) \<ge> \<beta> compareID \<and> \<beta> (internalBV bv bvID) \<le> \<beta> compareID"
      by blast
    also have "\<dots> \<longleftrightarrow> \<beta> (internalBV bv bvID) = \<beta> compareID"
      by linarith
    finally show ?thesis
      unfolding assms(3) .
  qed
  with e show ?thesis
    by blast
qed

text \<open>
  Claim C5. For bitvectors \<open>a\<close> and \<open>b\<close>, the literal \<open>c\<close> that
  \<^verbatim>\<open>newBVComparison_bv_eq(S, bv, a, b)\<close> returns should be constrained so that \<open>c\<close> is true
  iff \<open>a \<ge> b\<close> and \<open>a \<le> b\<close>. In the theory \<open>bv_renamed\<close> the bitvectors 0 and 1 of the caller
  are the theory's bitvectors 10 and 11. The call for them posts its two comparisons
  between the bitvectors 10 and 1, and its three clauses. Under values of the
  bitvectors with 10 and 11 equal, and the assignment in which every variable is false,
  the comparison literals have the truth of their comparisons and the clauses are true,
  but \<open>c\<close> is false.
\<close>

theorem newBVComparison_bv_eq_renamed:
  "newBVComparison_bv_eq solver2 bv_renamed 0 1 =
     (8,
      solver2\<lparr>nVars := 5, var_map := [1, 0, 2, 3, 4], var_reverse_map := [1, 0, 2, 3, 4],
        no_elimination := [4],
        clauses := [ [toLit 4, toLit 9], [toLit 7, toLit 9], [toLit 8, toLit 5, toLit 6] ]\<rparr>,
      bv_renamed\<lparr>comparisons := [(geq, 10, 1, toLit 4), (gt, 10, 1, toLit 6)]\<rparr>) \<and>
   internalBV bv_renamed 0 = 10 \<and> internalBV bv_renamed 1 = 11 \<and>
   beta_renamed 10 = beta_renamed 11 \<and>
   lit_true sigma_false (toLit 4) = compare geq (beta_renamed 10) (beta_renamed 1) \<and>
   lit_true sigma_false (toLit 6) = compare gt (beta_renamed 10) (beta_renamed 1) \<and>
   clause_true sigma_false [toLit 4, toLit 9] \<and>
   clause_true sigma_false [toLit 7, toLit 9] \<and>
   clause_true sigma_false [toLit 8, toLit 5, toLit 6] \<and>
   externalLit solver2 (toLit 8) = 8 \<and>
   \<not> lit_true sigma_false (toLit 8)"
proof -
  have "newBVComparison_bv_eq solver2 bv_renamed 0 1 =
     (8,
      solver2\<lparr>nVars := 5, var_map := [1, 0, 2, 3, 4], var_reverse_map := [1, 0, 2, 3, 4],
        no_elimination := [4],
        clauses := [ [toLit 4, toLit 9], [toLit 7, toLit 9], [toLit 8, toLit 5, toLit 6] ]\<rparr>,
      bv_renamed\<lparr>comparisons := [(geq, 10, 1, toLit 4), (gt, 10, 1, toLit 6)]\<rparr>)"
    by (simp add: newBVComparison_bv_eq_def newBVComparison_bv_geq_def newBVComparison_bv_gt_def
      newComparisonBV_def S_newVar_def Let_def solver2_def newSolver_def bv_renamed_def bv0_def
      write_out_def toSolver_def internalBV_def mapBV_def getBits_def nMappedVars_def
      externalLit_def internalLit_def S_mapLit_def S_unmapLit_def S_mapVar_def S_unmapVar_def
      mkLit_def neg_def var_eq_div sign_iff_odd S_addClause_def S_disableElimination_def)
  moreover have "internalBV bv_renamed 0 = 10 \<and> internalBV bv_renamed 1 = 11 \<and>
      beta_renamed 10 = beta_renamed 11"
    by (simp add: internalBV_def mapBV_def bv_renamed_def beta_renamed_def)
  moreover have "lit_true sigma_false (toLit 4) = compare geq (beta_renamed 10) (beta_renamed 1) \<and>
      lit_true sigma_false (toLit 6) = compare gt (beta_renamed 10) (beta_renamed 1)"
    by (simp add: lit_true_def sigma_false_def beta_renamed_def var_eq_div sign_iff_odd)
  moreover have "clause_true sigma_false [toLit 4, toLit 9] \<and>
      clause_true sigma_false [toLit 7, toLit 9] \<and>
      clause_true sigma_false [toLit 8, toLit 5, toLit 6] \<and> \<not> lit_true sigma_false (toLit 8)"
    by (simp add: clause_true_def lit_true_def sigma_false_def var_eq_div sign_iff_odd)
  moreover have "externalLit solver2 (toLit 8) = 8"
    by (simp add: externalLit_def S_unmapLit_def S_unmapVar_def solver2_def mkLit_def
        var_eq_div sign_iff_odd)
  ultimately show ?thesis
    by blast
qed

section \<open>Minimizing an unsat core\<close>
















end
